theory Spec2Isabelle
  imports Complex_Main "HOL-Library.Char_ord" "HOL-Library.List_Lexorder"
begin

section \<open>Shared data: dynamically typed values, errors, time\<close>

text \<open>
  The Python sources pass JSON-shaped values around (event payloads, pattern values,
  evidence).  They are embedded as a tree.  Floats are embedded as rationals: every
  constant of the sources is a decimal fraction, and the properties proved below are about
  comparisons, clamps and rounding to a fixed number of decimals.
\<close>

datatype jval =
    JNull
  | JBool bool
  | JInt int
  | JFloat rat
  | JStr string
  | JArr "jval list"
  | JObj "(string \<times> jval) list"

text \<open>Exceptions of the sources that the embedded functions can raise.\<close>

datatype error = TypeError | AttributeError | ValueError

text \<open>A point in time of the event store: microseconds since the epoch, in UTC.\<close>

type_synonym timestamp = int

text \<open>Python truthiness, as used by \<open>x or default\<close>.\<close>

fun truthy :: "jval \<Rightarrow> bool" where
  "truthy JNull = False"
| "truthy (JBool b) = b"
| "truthy (JInt i) = (i \<noteq> 0)"
| "truthy (JFloat r) = (r \<noteq> 0)"
| "truthy (JStr s) = (s \<noteq> [])"
| "truthy (JArr xs) = (xs \<noteq> [])"
| "truthy (JObj kvs) = (kvs \<noteq> [])"

text \<open>\<open>d.get(k)\<close> on a dictionary held as an association list.\<close>

definition dict_get :: "(string \<times> jval) list \<Rightarrow> string \<Rightarrow> jval option" where
  "dict_get d k = map_of d k"

text \<open>\<open>d.get(k, dflt)\<close> on a dictionary, and \<open>d.get(k)\<close>, whose default is \<open>None\<close>.\<close>

definition dict_get_or :: "(string \<times> jval) list \<Rightarrow> string \<Rightarrow> jval \<Rightarrow> jval" where
  "dict_get_or d k dflt = (case dict_get d k of None \<Rightarrow> dflt | Some v \<Rightarrow> v)"

definition get_or_null :: "(string \<times> jval) list \<Rightarrow> string \<Rightarrow> jval" where
  "get_or_null d k = dict_get_or d k JNull"

text \<open>
  \<open>x.get(k, dflt)\<close> on an arbitrary value: only a dictionary has the method, every other
  value raises \<open>AttributeError\<close>.
\<close>

definition py_get :: "jval \<Rightarrow> string \<Rightarrow> jval \<Rightarrow> error + jval" where
  "py_get x k dflt = (case x of JObj d \<Rightarrow> Inr (dict_get_or d k dflt) | _ \<Rightarrow> Inl AttributeError)"

text \<open>
  \<open>int(x)\<close>: a bool is 0 or 1, a float is truncated towards zero, a string is read by the
  library (\<open>int_of_str\<close>, a parameter that yields \<open>None\<close> where \<open>int\<close> raises
  \<open>ValueError\<close>), and \<open>None\<close>, a list or a dictionary raise \<open>TypeError\<close>.
\<close>

fun py_int :: "(string \<Rightarrow> int option) \<Rightarrow> jval \<Rightarrow> error + int" where
  "py_int int_of_str JNull = Inl TypeError"
| "py_int int_of_str (JBool b) = Inr (if b then 1 else 0)"
| "py_int int_of_str (JInt i) = Inr i"
| "py_int int_of_str (JFloat r) = Inr (if r \<ge> 0 then \<lfloor>r\<rfloor> else \<lceil>r\<rceil>)"
| "py_int int_of_str (JStr s) =
     (case int_of_str s of None \<Rightarrow> Inl ValueError | Some i \<Rightarrow> Inr i)"
| "py_int int_of_str (JArr xs) = Inl TypeError"
| "py_int int_of_str (JObj d) = Inl TypeError"

text \<open>\<open>int(x or 0)\<close>.\<close>

definition int_or_zero :: "(string \<Rightarrow> int option) \<Rightarrow> jval \<Rightarrow> error + int" where
  "int_or_zero int_of_str x = (if truthy x then py_int int_of_str x else Inr 0)"

text \<open>
  The number a value stands for in arithmetic and in \<open>min\<close> and \<open>max\<close> against a float:
  a bool is 0 or 1; no other value than a bool, an int or a float is a number.
\<close>

fun py_number :: "jval \<Rightarrow> rat option" where
  "py_number (JBool b) = Some (if b then 1 else 0)"
| "py_number (JInt i) = Some (of_int i)"
| "py_number (JFloat r) = Some r"
| "py_number _ = None"

text \<open>
  \<open>str(x)\<close>: a string is itself; the text of any other value is the library's
  (\<open>py_repr\<close>, a parameter).
\<close>

definition py_str :: "(jval \<Rightarrow> string) \<Rightarrow> jval \<Rightarrow> string" where
  "py_str py_repr x = (case x of JStr s \<Rightarrow> s | _ \<Rightarrow> py_repr x)"


section \<open>Strings\<close>

text \<open>
  Python strings are embedded as \<open>string\<close>.  The functions below are Python's on ASCII
  text; a character outside ASCII is held as the bytes of its UTF-8 encoding, which keeps
  substring tests exact, and those bytes are treated as caseless characters that are
  neither whitespace nor word characters.
\<close>

definition isupper :: "char \<Rightarrow> bool" where
  "isupper c = (CHR ''A'' \<le> c \<and> c \<le> CHR ''Z'')"

definition lower_char :: "char \<Rightarrow> char" where
  "lower_char c = (if isupper c then char_of (of_char c + (32 :: nat)) else c)"

definition lower :: "string \<Rightarrow> string" where
  "lower s = map lower_char s"

text \<open>\<open>str.isspace\<close> on ASCII: tab to carriage return, the four separators, space.\<close>

definition isspace :: "char \<Rightarrow> bool" where
  "isspace c = (let n = (of_char c :: nat) in (9 \<le> n \<and> n \<le> 13) \<or> (28 \<le> n \<and> n \<le> 32))"

definition strip :: "string \<Rightarrow> string" where
  "strip s = rev (dropWhile isspace (rev (dropWhile isspace s)))"

definition startswith :: "string \<Rightarrow> string \<Rightarrow> bool" where
  "startswith s p = (take (length p) s = p)"


text \<open>\<open>sub in s\<close>.\<close>

fun contains :: "string \<Rightarrow> string \<Rightarrow> bool" where
  "contains [] sub = (sub = [])"
| "contains (c # cs) sub = (startswith (c # cs) sub \<or> contains cs sub)"

text \<open>\<open>any(t in s for t in ts)\<close>.\<close>

definition contains_any :: "string \<Rightarrow> string list \<Rightarrow> bool" where
  "contains_any s ts = list_ex (contains s) ts"

text \<open>
  \<open>round(x, nd)\<close>: to the nearest multiple of \<open>10\<^sup>-\<^sup>n\<^sup>d\<close>, a tie going to the even
  neighbour.
\<close>

definition py_round :: "nat \<Rightarrow> rat \<Rightarrow> rat" where
  "py_round nd x =
     (let y = x * 10 ^ nd; f = \<lfloor>y\<rfloor>; d = y - of_int f
      in of_int (if d < 1 / 2 then f else if 1 / 2 < d then f + 1
                 else if even f then f else f + 1) / 10 ^ nd)"



section \<open>Pattern derivation: \<open>api/learning/aggregator.py\<close>\<close>

text \<open>
  An event as \<open>fetch_events\<close> returns it; only the fields that \<open>derive_patterns\<close> reads.
  A field that may hold \<open>None\<close> is an option.
\<close>

record event =
  event_type :: "string option"
  tags :: "string list option"
  payload :: "jval option"
  created_at :: "timestamp option"

record pattern =
  subject :: string
  pattern_type :: string
  key :: string
  val :: jval
  confidence :: rat
  evidence :: jval
  last_seen :: timestamp

definition has_tag :: "event \<Rightarrow> string \<Rightarrow> bool" where
  "has_tag e wanted = (wanted \<in> set (case tags e of None \<Rightarrow> [] | Some ts \<Rightarrow> ts))"

definition is_type :: "event \<Rightarrow> string \<Rightarrow> bool" where
  "is_type e wanted = ((case event_type e of None \<Rightarrow> [] | Some t \<Rightarrow> t) = wanted)"

text \<open>
  \<open>payload = e.get("payload") or {}\<close>, then
  \<open>action = payload.get("action") if isinstance(payload, dict) else None\<close>.
\<close>

definition payload_action :: "event \<Rightarrow> jval option" where
  "payload_action e =
     (case payload e of
        None \<Rightarrow> None
      | Some p \<Rightarrow>
          (if truthy p then (case p of JObj d \<Rightarrow> dict_get d ''action'' | _ \<Rightarrow> None)
           else None))"

text \<open>The three qualifying counts, as the three loops of \<open>derive_patterns\<close> compute them.\<close>

definition ask_explain_count :: "event list \<Rightarrow> int" where
  "ask_explain_count events =
     int (length (filter (\<lambda>e. is_type e ''ask_explain'' \<or> has_tag e ''ask_explain'') events))"

definition search_use_count :: "event list \<Rightarrow> int" where
  "search_use_count events =
     int (length (filter (\<lambda>e. has_tag e ''tool:search''
                              \<or> payload_action e = Some (JStr ''search'')) events))"

definition friction_count :: "event list \<Rightarrow> int" where
  "friction_count events =
     int (length (filter (\<lambda>e. is_type e ''correction'' \<or> is_type e ''frustration''
                              \<or> has_tag e ''correction'' \<or> has_tag e ''frustration'') events))"

text \<open>The three confidence formulas.\<close>

definition explain_conf :: "int \<Rightarrow> rat" where
  "explain_conf n = min (95 / 100) (55 / 100 + of_int (n - 4) * (8 / 100))"

definition search_conf :: "int \<Rightarrow> rat" where
  "search_conf n = min (92 / 100) (50 / 100 + of_int (n - 5) * (7 / 100))"

definition friction_conf :: "int \<Rightarrow> rat" where
  "friction_conf n = min (90 / 100) (60 / 100 + of_int (n - 6) * (5 / 100))"

text \<open>Each rule appends at most one pattern; \<open>now\<close> is the reading of \<open>utcnow()\<close>.\<close>

definition explain_rule :: "timestamp \<Rightarrow> event list \<Rightarrow> pattern list" where
  "explain_rule now events =
     (let ask_explain = ask_explain_count events in
      if ask_explain \<ge> 4 then
        [\<lparr>subject = ''user'', pattern_type = ''preference'', key = ''explain_level'',
          val = JObj [(''level'', JStr ''high'')],
          confidence = explain_conf ask_explain,
          evidence = JObj [(''event_type_or_tag'', JStr ''ask_explain''),
                           (''count'', JInt ask_explain), (''threshold'', JInt 4)],
          last_seen = now\<rparr>]
      else [])"

definition search_rule :: "timestamp \<Rightarrow> event list \<Rightarrow> pattern list" where
  "search_rule now events =
     (let search_use = search_use_count events in
      if search_use \<ge> 5 then
        [\<lparr>subject = ''user'', pattern_type = ''habit'', key = ''tool_usage:search'',
          val = JObj [(''count'', JInt search_use)],
          confidence = search_conf search_use,
          evidence = JObj [(''signals'', JArr [JStr ''tool:search'', JStr ''payload.action=search'']),
                           (''count'', JInt search_use), (''threshold'', JInt 5)],
          last_seen = now\<rparr>]
      else [])"

definition friction_rule :: "timestamp \<Rightarrow> event list \<Rightarrow> pattern list" where
  "friction_rule now events =
     (let friction = friction_count events in
      if friction \<ge> 6 then
        [\<lparr>subject = ''user'', pattern_type = ''anomaly'', key = ''interaction:high_friction'',
          val = JObj [(''count'', JInt friction)],
          confidence = friction_conf friction,
          evidence = JObj [(''signals'', JArr [JStr ''correction'', JStr ''frustration'']),
                           (''count'', JInt friction), (''threshold'', JInt 6)],
          last_seen = now\<rparr>]
      else [])"

definition derive_patterns :: "timestamp \<Rightarrow> event list \<Rightarrow> pattern list" where
  "derive_patterns now events =
     explain_rule now events @ search_rule now events @ friction_rule now events"

text \<open>
  \<open>upsert_patterns\<close> runs one \<open>INSERT ... ON CONFLICT (subject, pattern_type, key) DO UPDATE\<close>
  per pattern.  The table \<open>learning_patterns\<close> is the list of its rows; the statement
  overwrites value, confidence, evidence and last_seen of the row with the same key triple
  and appends a row when there is none.
\<close>

definition key3 :: "pattern \<Rightarrow> string \<times> string \<times> string" where
  "key3 p = (subject p, pattern_type p, key p)"

fun upsert_row :: "pattern \<Rightarrow> pattern list \<Rightarrow> pattern list" where
  "upsert_row p [] = [p]"
| "upsert_row p (r # rs) =
     (if key3 r = key3 p
      then r\<lparr>val := val p, confidence := confidence p, evidence := evidence p,
              last_seen := last_seen p\<rparr> # rs
      else r # upsert_row p rs)"

text \<open>Returns the table after the loop and the count \<open>n\<close> the function returns.\<close>

definition upsert_patterns :: "pattern list \<Rightarrow> pattern list \<Rightarrow> pattern list \<times> nat" where
  "upsert_patterns table patterns = (fold upsert_row patterns table, length patterns)"

text \<open>
  Two views of a row used to state what an upsert changes: the row without its
  \<open>last_seen\<close> column, and agreement of a row with a derived pattern on the key triple
  and on the columns value, confidence and evidence.
\<close>

definition strip_seen :: "pattern \<Rightarrow> pattern" where
  "strip_seen r = r\<lparr>last_seen := 0\<rparr>"

definition agrees :: "pattern \<Rightarrow> pattern \<Rightarrow> bool" where
  "agrees p r = (key3 r = key3 p \<and> val r = val p \<and> confidence r = confidence p
                 \<and> evidence r = evidence p)"

text \<open>
  The qualifying counts in the words of the specification: the explain rule also counts
  the tag \<open>pref:explain\<close>, the friction rule also the tag \<open>anomaly:friction\<close>.  To be
  compared with \<open>ask_explain_count\<close> and \<open>friction_count\<close>.
\<close>

definition explain_qualifying_spec :: "event list \<Rightarrow> int" where
  "explain_qualifying_spec events =
     int (length (filter (\<lambda>e. is_type e ''ask_explain'' \<or> has_tag e ''ask_explain''
                              \<or> has_tag e ''pref:explain'') events))"

definition friction_qualifying_spec :: "event list \<Rightarrow> int" where
  "friction_qualifying_spec events =
     int (length (filter (\<lambda>e. is_type e ''correction'' \<or> is_type e ''frustration''
                              \<or> has_tag e ''correction'' \<or> has_tag e ''frustration''
                              \<or> has_tag e ''anomaly:friction'') events))"

text \<open>Example events: a plain chat event carrying the given tags at the given time.\<close>

abbreviation tagged_event :: "string list \<Rightarrow> timestamp \<Rightarrow> event" where
  "tagged_event ts t \<equiv>
     \<lparr>event_type = Some ''chat'', tags = Some ts, payload = None, created_at = Some t\<rparr>"

abbreviation typed_event :: "string \<Rightarrow> event" where
  "typed_event ty \<equiv>
     \<lparr>event_type = Some ty, tags = Some [], payload = None, created_at = None\<rparr>"

section \<open>The composite score: \<open>modules/status_slimheidsmeter.py\<close>\<close>

definition MAX_MODULE_POINTS :: rat where "MAX_MODULE_POINTS = 35"
definition MAX_SELF_POINTS :: rat where "MAX_SELF_POINTS = 50"
definition MAX_USAGE_POINTS :: rat where "MAX_USAGE_POINTS = 15"

text \<open>
  A \<open>datetime\<close> is naive or timezone-aware; an aware one is held as its UTC instant in
  microseconds.  Ordering or subtracting a naive and an aware one raises \<open>TypeError\<close>.
\<close>

datatype datetime = Naive int | Aware int

fun dt_gt :: "datetime \<Rightarrow> datetime \<Rightarrow> error + bool" where
  "dt_gt (Naive a) (Naive b) = Inr (a > b)"
| "dt_gt (Aware a) (Aware b) = Inr (a > b)"
| "dt_gt _ _ = Inl TypeError"

text \<open>
  The dataclasses.  Python does not check the annotations, so \<open>key\<close>, \<open>avg_score\<close> and
  \<open>last_mood\<close> hold whatever value the raw dictionary has; \<open>status\<close> is the result of
  \<open>str\<close> and \<open>preferences_count\<close> that of \<open>int\<close>.  The fields \<open>note\<close>, \<open>user_score\<close> and
  \<open>patterns\<close>, which are stored and never read, are left out.
\<close>

record ModuleStatus =
  ms_key :: jval
  ms_status :: string

record SelfLearningStatus =
  has_data :: bool
  avg_score :: jval
  preferences_count :: int
  last_mood :: jval

record LastSessionStatus =
  last_action :: "datetime option"
  estimated_dev_minutes :: int

definition core_keys :: "string list" where
  "core_keys = [''auth'', ''database'', ''database_conn'', ''dashboard_api'', ''model_router'',
                ''chat_api'', ''zelflerend_geheugen'']"

text \<open>
  \<open>1.3 if m.key in core_keys else 1.0\<close>: membership in a set hashes the key, so a list or
  a dictionary raises \<open>TypeError\<close>; only a string can be a member.
\<close>

fun key_weight :: "jval \<Rightarrow> error + rat" where
  "key_weight (JStr k) = Inr (if k \<in> set core_keys then 13 / 10 else 1)"
| "key_weight (JArr xs) = Inl TypeError"
| "key_weight (JObj d) = Inl TypeError"
| "key_weight _ = Inr 1"

text \<open>The loop of \<open>_score_modules\<close>, with its running \<open>score\<close>.\<close>

fun modules_loop :: "rat \<Rightarrow> ModuleStatus list \<Rightarrow> rat \<Rightarrow> error + rat" where
  "modules_loop base_per_module [] score = Inr score"
| "modules_loop base_per_module (m # ms) score =
     (case key_weight (ms_key m) of
        Inl e \<Rightarrow> Inl e
      | Inr weight \<Rightarrow>
          (let status = lower (if ms_status m = [] then ''off'' else ms_status m)
           in modules_loop base_per_module ms
                (if status = ''ok'' then score + base_per_module * weight
                 else if status = ''warn'' then score + base_per_module * (1 / 2) * weight
                 else score)))"

definition score_modules :: "ModuleStatus list \<Rightarrow> error + rat" where
  "score_modules modules =
     (if modules = [] then Inr 0
      else let base_per_module = MAX_MODULE_POINTS / of_nat (max (length modules) 1)
           in case modules_loop base_per_module modules 0 of
                Inl e \<Rightarrow> Inl e
              | Inr score \<Rightarrow> Inr (min score MAX_MODULE_POINTS))"

definition positieve_triggers :: "string list" where
  "positieve_triggers = [''rustig'', ''kalm'', ''relaxed'', ''blij'', ''tevreden'',
                         ''gemotiveerd'', ''gefocust'', ''in balans'', ''chill'']"

definition negatieve_triggers :: "string list" where
  "negatieve_triggers = [''stress'', ''gestrest'', ''overprikkeld'', ''boos'', ''bang'',
                         ''angstig'', ''onrustig'', ''moe'', ''op'', ''overwhelmed'']"

text \<open>
  \<open>_score_emotion\<close>: a falsy mood gives 0; \<open>.strip()\<close> on a truthy value that is not a
  string raises \<open>AttributeError\<close>.
\<close>

definition score_emotion :: "jval \<Rightarrow> error + rat" where
  "score_emotion mood_raw =
     (if \<not> truthy mood_raw then Inr 0
      else case mood_raw of
             JStr lm \<Rightarrow>
               (let mood = lower (strip lm)
                in if contains_any mood positieve_triggers then Inr 4
                   else if contains_any mood negatieve_triggers then Inr (- 4)
                   else Inr 0)
           | _ \<Rightarrow> Inl AttributeError)"

text \<open>
  \<open>_score_self_learning\<close>: \<open>min(sl.avg_score, 10.0)\<close> raises \<open>TypeError\<close> on a value that
  is not a number; the emotion is scored after it.
\<close>

definition score_self_learning :: "SelfLearningStatus \<Rightarrow> error + rat" where
  "score_self_learning sl =
     (let base0 = (if has_data sl then 10 else 0 :: rat)
      in case (if avg_score sl = JNull then Inr base0
               else case py_number (avg_score sl) of
                      None \<Rightarrow> Inl TypeError
                    | Some a \<Rightarrow> Inr (base0 + (max 0 (min a 10) / 10) * 30)) of
           Inl e \<Rightarrow> Inl e
         | Inr base1 \<Rightarrow>
             (let prefs = max 0 (min (preferences_count sl) 10);
                  base2 = base1 + (of_int prefs / 10) * 10
              in case score_emotion (last_mood sl) of
                   Inl e \<Rightarrow> Inl e
                 | Inr emo_bonus \<Rightarrow> Inr (max 0 (min (base2 + emo_bonus) MAX_SELF_POINTS))))"

text \<open>
  \<open>_score_usage\<close>; \<open>now\<close> is the reading of \<open>datetime.now(timezone.utc)\<close>, an aware
  datetime, as its UTC instant in microseconds.
\<close>

definition score_usage :: "int \<Rightarrow> LastSessionStatus \<Rightarrow> error + rat" where
  "score_usage now last_session =
     (case last_action last_session of
        None \<Rightarrow> Inr 0
      | Some (Naive t) \<Rightarrow> Inl TypeError
      | Some (Aware t) \<Rightarrow>
          (let hours = (of_int (now - t) / 1000000 / 3600 :: rat);
               score = (if hours \<le> 6 then 13 else if hours \<le> 24 then 10
                        else if hours \<le> 72 then 7 else if hours \<le> 168 then 4 else (0 :: rat));
               score' = (if estimated_dev_minutes last_session \<ge> 60
                         then min (score + 2) MAX_USAGE_POINTS else score)
           in Inr (min score' MAX_USAGE_POINTS)))"

text \<open>
  A user \<open>u\<close> of \<open>last_session.users\<close>: \<open>ts = u.get("last_action")\<close> raises
  \<open>AttributeError\<close> unless \<open>u\<close> is a dictionary; a falsy \<open>ts\<close> is skipped;
  \<open>datetime.fromisoformat(ts)\<close> stands inside a \<open>try\<close> that skips the user on any
  exception, so a truthy \<open>ts\<close> that is not a string is skipped as well.  The library
  function is a parameter that yields \<open>None\<close> where it raises.
\<close>

definition parse_last_action :: "(string \<Rightarrow> datetime option) \<Rightarrow> jval \<Rightarrow> error + datetime option" where
  "parse_last_action fromisoformat u =
     (case py_get u ''last_action'' JNull of
        Inl e \<Rightarrow> Inl e
      | Inr (JStr ts) \<Rightarrow> Inr (if ts = [] then None else fromisoformat ts)
      | Inr _ \<Rightarrow> Inr None)"

text \<open>\<open>int(u.get("estimated_dev_minutes", 0) or 0)\<close>.\<close>

definition est_minutes :: "(string \<Rightarrow> int option) \<Rightarrow> jval \<Rightarrow> error + int" where
  "est_minutes int_of_str u =
     (case py_get u ''estimated_dev_minutes'' (JInt 0) of
        Inl e \<Rightarrow> Inl e
      | Inr v \<Rightarrow> int_or_zero int_of_str v)"

text \<open>
  The loop over \<open>users.items()\<close>, with its state \<open>(target_user, target_dt)\<close>; the two are
  set together, so the state is one optional pair.
\<close>

fun most_recent_loop ::
  "(string \<Rightarrow> datetime option) \<Rightarrow> (jval \<times> datetime) option \<Rightarrow> (string \<times> jval) list
   \<Rightarrow> error + (jval \<times> datetime) option" where
  "most_recent_loop fromisoformat target [] = Inr target"
| "most_recent_loop fromisoformat target ((uid, u) # rest) =
     (case parse_last_action fromisoformat u of
        Inl e \<Rightarrow> Inl e
      | Inr None \<Rightarrow> most_recent_loop fromisoformat target rest
      | Inr (Some dt) \<Rightarrow>
          (case target of
             None \<Rightarrow> most_recent_loop fromisoformat (Some (u, dt)) rest
           | Some (tu, tdt) \<Rightarrow>
               (case dt_gt dt tdt of
                  Inl e \<Rightarrow> Inl e
                | Inr True \<Rightarrow> most_recent_loop fromisoformat (Some (u, dt)) rest
                | Inr False \<Rightarrow> most_recent_loop fromisoformat target rest)))"

text \<open>
  \<open>_extract_last_session\<close>.  \<open>users = (last_session_raw or {}).get("users") or {}\<close>; a
  truthy \<open>users\<close> that is not a dictionary raises \<open>AttributeError\<close> at \<open>users.items()\<close>.
\<close>

definition extract_last_session ::
  "(string \<Rightarrow> datetime option) \<Rightarrow> (string \<Rightarrow> int option) \<Rightarrow> jval \<Rightarrow> error + LastSessionStatus" where
  "extract_last_session fromisoformat int_of_str last_session_raw =
     (case py_get (if truthy last_session_raw then last_session_raw else JObj []) ''users'' JNull of
        Inl e \<Rightarrow> Inl e
      | Inr users_raw \<Rightarrow>
          if \<not> truthy users_raw then Inr \<lparr>last_action = None, estimated_dev_minutes = 0\<rparr>
          else
            (case users_raw of
               JObj ((uid0, first) # others) \<Rightarrow>
                 (case most_recent_loop fromisoformat None ((uid0, first) # others) of
                    Inl e \<Rightarrow> Inl e
                  | Inr None \<Rightarrow>
                      (case parse_last_action fromisoformat first of
                         Inl e \<Rightarrow> Inl e
                       | Inr dt \<Rightarrow>
                           (case est_minutes int_of_str first of
                              Inl e \<Rightarrow> Inl e
                            | Inr est \<Rightarrow>
                                Inr \<lparr>last_action = dt, estimated_dev_minutes = est\<rparr>))
                  | Inr (Some (target_user, target_dt)) \<Rightarrow>
                      (case est_minutes int_of_str target_user of
                         Inl e \<Rightarrow> Inl e
                       | Inr est \<Rightarrow>
                           Inr \<lparr>last_action = Some target_dt, estimated_dev_minutes = est\<rparr>))
             | _ \<Rightarrow> Inl AttributeError))"

text \<open>
  The list comprehension over \<open>modules_raw\<close>: each \<open>m.get\<close> raises \<open>AttributeError\<close> on an
  element that is not a dictionary, and the first exception ends the comprehension.
\<close>

definition to_ModuleStatus :: "(jval \<Rightarrow> string) \<Rightarrow> jval \<Rightarrow> error + ModuleStatus" where
  "to_ModuleStatus py_repr m =
     (case py_get m ''key'' (JStr []) of
        Inl e \<Rightarrow> Inl e
      | Inr k \<Rightarrow>
          (case py_get m ''status'' (JStr ''off'') of
             Inl e \<Rightarrow> Inl e
           | Inr s \<Rightarrow> Inr \<lparr>ms_key = k, ms_status = lower (py_str py_repr s)\<rparr>))"

fun map_raising :: "('a \<Rightarrow> error + 'b) \<Rightarrow> 'a list \<Rightarrow> error + 'b list" where
  "map_raising f [] = Inr []"
| "map_raising f (x # xs) =
     (case f x of
        Inl e \<Rightarrow> Inl e
      | Inr y \<Rightarrow> (case map_raising f xs of Inl e \<Rightarrow> Inl e | Inr ys \<Rightarrow> Inr (y # ys)))"

text \<open>
  The construction of \<open>SelfLearningStatus\<close>: \<open>bool(...)\<close> never raises, \<open>int(... or 0)\<close>
  may.
\<close>

definition to_SelfLearningStatus :: "(string \<Rightarrow> int option) \<Rightarrow> jval \<Rightarrow> error + SelfLearningStatus" where
  "to_SelfLearningStatus int_of_str r =
     (case r of
        JObj d \<Rightarrow>
          (case int_or_zero int_of_str (dict_get_or d ''preferences_count'' (JInt 0)) of
             Inl e \<Rightarrow> Inl e
           | Inr n \<Rightarrow>
               Inr \<lparr>has_data = truthy (dict_get_or d ''has_data'' (JBool False)),
                    avg_score = get_or_null d ''avg_score'',
                    preferences_count = n,
                    last_mood = get_or_null d ''last_mood''\<rparr>)
      | _ \<Rightarrow> Inl AttributeError)"

text \<open>
  \<open>calculate_slimheidsmeter\<close>, in the order of its statements.  The library functions
  \<open>datetime.fromisoformat\<close>, \<open>int\<close> on a string and \<open>str\<close> on a value that is not a string
  are parameters, and so is the clock.
\<close>

definition calculate_slimheidsmeter ::
  "(string \<Rightarrow> datetime option) \<Rightarrow> (string \<Rightarrow> int option) \<Rightarrow> (jval \<Rightarrow> string) \<Rightarrow> int
   \<Rightarrow> jval list \<Rightarrow> jval \<Rightarrow> jval \<Rightarrow> error + rat" where
  "calculate_slimheidsmeter fromisoformat int_of_str py_repr now modules_raw sl_raw ls_raw =
     (case map_raising (to_ModuleStatus py_repr) modules_raw of
        Inl e \<Rightarrow> Inl e
      | Inr modules \<Rightarrow>
     (case to_SelfLearningStatus int_of_str sl_raw of
        Inl e \<Rightarrow> Inl e
      | Inr sl \<Rightarrow>
     (case extract_last_session fromisoformat int_of_str ls_raw of
        Inl e \<Rightarrow> Inl e
      | Inr ls \<Rightarrow>
     (case score_modules modules of
        Inl e \<Rightarrow> Inl e
      | Inr modules_score \<Rightarrow>
     (case score_self_learning sl of
        Inl e \<Rightarrow> Inl e
      | Inr self_learning_score \<Rightarrow>
     (case score_usage now ls of
        Inl e \<Rightarrow> Inl e
      | Inr usage_score \<Rightarrow>
          (let total = modules_score + self_learning_score + usage_score
           in Inr (py_round 1 (max 0 (min total 100))))))))))"

text \<open>
  The usage points in the words of the specification: by elapsed hours 13, 10, 7, 4 or 0,
  and 2 more, capped at 15, from 60 development minutes on.  To be compared with
  \<open>score_usage\<close>.
\<close>

definition usage_points_spec :: "rat \<Rightarrow> int \<Rightarrow> rat" where
  "usage_points_spec hours dev_minutes =
     (let points = (if hours \<le> 6 then 13 else if hours \<le> 24 then 10
                    else if hours \<le> 72 then 7 else if hours \<le> 168 then 4 else 0)
      in if dev_minutes \<ge> 60 then min (points + 2) 15 else points)"

text \<open>Hours elapsed between an instant and a later reading of the clock, both in microseconds.\<close>

definition hours_between :: "int \<Rightarrow> int \<Rightarrow> rat" where
  "hours_between t now = of_int (now - t) / 3600000000"

section \<open>The explain-preference module: \<open>api/ml/modules/explain_preference_score.py\<close>\<close>












section \<open>The feature extractor: \<open>modules/zelflerend/scoring.py\<close>\<close>

definition SCORE_VERSION :: int where "SCORE_VERSION = 1"

record EmotionScore =
  e_label :: string
  e_confidence :: rat
  energy :: rat
  stress :: rat

record IntentScore =
  i_label :: string
  i_confidence :: rat
  i_tags :: "string list"

record BehaviorScore =
  importance :: rat
  novelty :: rat
  habit_strength :: rat
  risk :: rat

record RawStats =
  raw_length :: nat
  word_count :: nat
  exclamations :: nat
  question_marks :: nat
  uppercase_ratio :: rat
  contains_crypto :: bool
  contains_money :: bool
  contains_time :: bool
  timestamp :: string

text \<open>The dictionary that \<open>score_message\<close> returns.\<close>

record FeatureVector =
  version :: int
  emotion :: EmotionScore
  intent :: IntentScore
  behavior :: BehaviorScore
  raw :: RawStats

definition safe_div :: "rat \<Rightarrow> rat \<Rightarrow> rat" where
  "safe_div a b = (if b = 0 then 0 else a / b)"

definition normalize :: "rat \<Rightarrow> rat \<Rightarrow> rat \<Rightarrow> rat" where
  "normalize v min_v max_v =
     (if max_v = min_v then 0
      else max 0 (min 1 ((v - min_v) / (max_v - min_v))))"

text \<open>
  \<open>re.findall(r"\w+", text.lower())\<close>: the maximal runs of letters, digits and underscores
  of the lowercased text.
\<close>

definition is_digit :: "char \<Rightarrow> bool" where
  "is_digit c = (CHR ''0'' \<le> c \<and> c \<le> CHR ''9'')"

definition is_word_char :: "char \<Rightarrow> bool" where
  "is_word_char c = ((CHR ''a'' \<le> c \<and> c \<le> CHR ''z'') \<or> isupper c \<or> is_digit c \<or> c = CHR ''_'')"

text \<open>The maximal runs of the characters that satisfy \<open>P\<close>; \<open>cur\<close> is the run being read, reversed.\<close>

fun runs :: "(char \<Rightarrow> bool) \<Rightarrow> string \<Rightarrow> string \<Rightarrow> string list" where
  "runs P cur [] = (if cur = [] then [] else [rev cur])"
| "runs P cur (c # cs) =
     (if P c then runs P (c # cur) cs
      else if cur = [] then runs P [] cs
      else rev cur # runs P [] cs)"

definition to_words :: "string \<Rightarrow> string list" where
  "to_words text = runs is_word_char [] (lower text)"

text \<open>\<open>text.count(c)\<close> for a one-character \<open>c\<close>, and \<open>sum(w in lexicon for w in words)\<close>.\<close>

definition count_char :: "char \<Rightarrow> string \<Rightarrow> nat" where
  "count_char c text = length (filter (\<lambda>x. x = c) text)"

definition hits :: "string list \<Rightarrow> string list \<Rightarrow> nat" where
  "hits lexicon ws = length (filter (\<lambda>w. w \<in> set lexicon) ws)"

definition POSITIVE_WORDS :: "string list" where
  "POSITIVE_WORDS = [''top'', ''lekker'', ''nice'', ''gaaf'', ''goed'', ''chill'', ''relaxed'',
                     ''blij'', ''fijn'', ''yes'', ''yess'', ''yay'', ''super'', ''trots'']"

definition NEGATIVE_WORDS :: "string list" where
  "NEGATIVE_WORDS = [''kut'', ''klote'', ''k*t'', ''slecht'', ''rot'', ''balen'',
                     ''pfff'', ''pffff'', ''wtf'', ''boos'', ''haat'']"

definition STRESS_WORDS :: "string list" where
  "STRESS_WORDS = [''stress'', ''zenuw'', ''zenuwachtig'', ''paniek'', ''bang'',
                   ''nerveus'', ''onzeker'', ''overprikkeld'', ''prikkels'']"

definition ANGER_WORDS :: "string list" where
  "ANGER_WORDS = [''gvd'', ''godver'', ''fk'', ''fuck'', ''woest'', ''klootzak'', ''idioot'']"

text \<open>The last two markers are the emoji U+1F525 and U+1F918, in UTF-8.\<close>

definition HIGH_ENERGY_MARKERS :: "string list" where
  "HIGH_ENERGY_MARKERS = [''joo'', ''maat'', ''haha'', ''hahaha'', ''omg'', ''wtf'',
                          [CHR 0xF0, CHR 0x9F, CHR 0x94, CHR 0xA5],
                          [CHR 0xF0, CHR 0x9F, CHR 0xA4, CHR 0x98]]"

definition detect_emotion :: "string \<Rightarrow> EmotionScore" where
  "detect_emotion message =
     (let text = strip message;
          ws = to_words text;
          pos_hits = hits POSITIVE_WORDS ws;
          neg_hits = hits NEGATIVE_WORDS ws;
          stress_hits = hits STRESS_WORDS ws;
          anger_hits = hits ANGER_WORDS ws;
          energy_hits = hits HIGH_ENERGY_MARKERS ws;
          excl = count_char CHR ''!'' text;
          qmarks = count_char CHR ''?'' text;
          upper_chars = length (filter isupper text);
          total_chars = (if length text = 0 then 1 else length text);
          upper_ratio = (of_nat upper_chars / of_nat total_chars :: rat);
          base_energy = normalize (of_nat excl + of_nat energy_hits * (3 / 2) + upper_ratio * 10) 0 10;
          base_stress = normalize (of_nat stress_hits * (3 / 2) + of_nat anger_hits * 2
                                   + of_nat qmarks) 0 8;
          sentiment_raw = int pos_hits - (int neg_hits + int anger_hits);
          label = (if sentiment_raw > 1 then ''positief''
                   else if sentiment_raw < - 1 then
                     (if anger_hits > stress_hits then ''boos'' else ''negatief'')
                   else (if base_stress > 6 / 10 then ''gestrest'' else ''neutraal''));
          signal_strength = pos_hits + neg_hits + stress_hits + anger_hits + excl + qmarks;
          conf = normalize (of_nat signal_strength) 0 12
      in \<lparr>e_label = label, e_confidence = py_round 3 conf, energy = py_round 3 base_energy,
          stress = py_round 3 base_stress\<rparr>)"

text \<open>\<open>_INTENT_KEYWORDS\<close>, in the order of the dictionary literal.\<close>

definition INTENT_KEYWORDS :: "(string \<times> string list) list" where
  "INTENT_KEYWORDS =
     [(''crypto'', [''btc'', ''bitcoin'', ''altseason'', ''alt season'', ''altcoins'',
                    ''wif'', ''tars'', ''fart'', ''kaspa'', ''kasp'', ''etc'', ''eth'',
                    ''bybit'', ''bitvavo'', ''binance'', ''entry'', ''target'', ''stoploss'',
                    ''stop loss'']),
      (''planning'', [''planning'', ''afspraak'', ''agenda'', ''morgen'', ''vandaag'',
                      ''vanavond'', ''weekend'', ''deadline'', ''uren'', ''werken'',
                      ''sollicitatie'']),
      (''werk'', [''gemeente'', ''baan'', ''cv'', ''sollicitatie'', ''vacature'', ''uren'',
                  ''contract'', ''werk'', ''functie'', ''teamleider'']),
      (''ontwikkeling'', [''leren'', ''studie'', ''opleiding'', ''cursus'', ''boeken'',
                          ''pdf'', ''samenvatten'', ''developer'', ''programmeren'', ''python'',
                          ''code'']),
      (''emotioneel'', [''bang'', ''stress'', ''zorgen'', ''gevoel'', ''emotie'', ''twijfel'',
                        ''doodop'', ''overprikkeld'', ''overprikkeling'', ''onzeker'']),
      (''buddy'', [''lizz'', ''jax'', ''buddy'', ''kinder'', ''tiener'', ''school'',
                   ''sinterklaas'', ''cadeau'', ''speelgoed''])]"

text \<open>The keywords of a list that occur in the text, in the order of the list.\<close>

definition kw_hits :: "string \<Rightarrow> string list \<Rightarrow> string list" where
  "kw_hits text kws = filter (contains text) kws"

text \<open>
  The loop that picks the intent with the highest score; the state is
  \<open>(top_intent, top_score)\<close>, and a later intent wins only with a strictly higher score.
\<close>

fun pick_top :: "string \<times> nat \<Rightarrow> (string \<times> nat) list \<Rightarrow> string \<times> nat" where
  "pick_top best [] = best"
| "pick_top (top_intent, top_score) ((intent_name, score) # rest) =
     (if score > top_score then pick_top (intent_name, score) rest
      else pick_top (top_intent, top_score) rest)"

definition detect_intent :: "string \<Rightarrow> IntentScore" where
  "detect_intent message =
     (let text = lower message;
          scores = map (\<lambda>(intent_name, kws). (intent_name, length (kw_hits text kws)))
                       INTENT_KEYWORDS;
          hits_tags0 = concat (map (\<lambda>(intent_name, kws). kw_hits text kws) INTENT_KEYWORDS);
          greet = contains_any text [''joo maat'', ''jo maat'', ''joo'', ''maat''];
          checkin = contains_any text [''hoe is het'', ''hoe gaat het''];
          smalltalk_score = (if greet then 2 else 0) + (if checkin then 2 else (0 :: nat));
          hits_tags = hits_tags0 @ (if greet then [''smalltalk''] else [])
                                 @ (if checkin then [''check-in''] else []);
          best = pick_top (''smalltalk'', smalltalk_score) scores;
          emo_weight = (case map_of scores ''emotioneel'' of None \<Rightarrow> 0 | Some n \<Rightarrow> n);
          best' = (if emo_weight \<ge> 2 \<and> emo_weight \<ge> snd best then (''emotioneel'', emo_weight)
                   else best);
          conf = normalize (of_nat (snd best')) 0 5
      in \<lparr>i_label = fst best', i_confidence = py_round 3 conf,
          i_tags = sort (remdups hits_tags)\<rparr>)"

text \<open>The second and the last money word are the euro sign and \<open>prive\<close> with an acute accent, in UTF-8.\<close>

definition MONEY_WORDS :: "string list" where
  "MONEY_WORDS = [''euro'', [CHR 0xE2, CHR 0x82, CHR 0xAC], ''salaris'', ''loon'', ''verdien'',
                  ''verdient'', ''budget'', ''schuld'', ''betal'', ''rekening'', ''prive'',
                  ''priv'' @ [CHR 0xC3, CHR 0xA9]]"

definition TIME_WORDS :: "string list" where
  "TIME_WORDS = [''vandaag'', ''morgen'', ''vanavond'', ''straks'', ''volgende week'',
                 ''overmorgen'', ''dit weekend'', ''die dag'', ''datum'', ''tijdstip'']"

text \<open>
  \<open>_extract_raw_stats\<close>; \<open>message or ""\<close> makes it accept \<open>None\<close>.  \<open>now_iso\<close> is the text
  of \<open>datetime.utcnow().isoformat()\<close> at the call.
\<close>

definition extract_raw_stats :: "string \<Rightarrow> string option \<Rightarrow> RawStats" where
  "extract_raw_stats now_iso message =
     (let text = (case message of None \<Rightarrow> [] | Some m \<Rightarrow> m);
          ws = to_words text;
          len = length text;
          upper_chars = length (filter isupper text);
          total_chars = (if len = 0 then 1 else len);
          upper_ratio = (of_nat upper_chars / of_nat total_chars :: rat);
          lw = lower text
      in \<lparr>raw_length = len, word_count = length ws,
          exclamations = count_char CHR ''!'' text, question_marks = count_char CHR ''?'' text,
          uppercase_ratio = py_round 3 upper_ratio,
          contains_crypto = contains_any lw (case map_of INTENT_KEYWORDS ''crypto'' of
                                               None \<Rightarrow> [] | Some kws \<Rightarrow> kws),
          contains_money = contains_any lw MONEY_WORDS,
          contains_time = contains_any lw TIME_WORDS,
          timestamp = now_iso @ ''Z''\<rparr>)"

text \<open>\<open>[h.lower().strip() for h in history if h]\<close>.\<close>

definition history_lw_of :: "string list \<Rightarrow> string list" where
  "history_lw_of history = map (\<lambda>h. strip (lower h)) (filter (\<lambda>h. h \<noteq> []) history)"

definition detect_habit_strength :: "string \<Rightarrow> string list \<Rightarrow> rat" where
  "detect_habit_strength message history =
     (if history = [] then 1 / 10
      else let text = strip (lower message);
               history_lw = history_lw_of history
           in if text = [] then 0
              else let same_start = length (filter (\<lambda>h. h \<noteq> [] \<and>
                                        ((startswith text ''joo maat'' \<and> startswith h ''joo maat'')
                                         \<or> contains h text \<or> contains text h)) history_lw);
                       ratio = safe_div (of_nat same_start) (of_nat (length history_lw))
                   in py_round 3 (normalize ratio 0 (6 / 10)))"

definition estimate_importance ::
  "string \<Rightarrow> IntentScore \<Rightarrow> EmotionScore \<Rightarrow> RawStats \<Rightarrow> rat" where
  "estimate_importance message int_s emo rw =
     (let text = lower message;
          b0 = (2 / 10 :: rat);
          b1 = (if i_label int_s \<in> set [''werk'', ''planning'', ''ontwikkeling'', ''crypto'']
                then b0 + 2 / 10 else b0);
          b2 = (if i_label int_s = ''emotioneel'' then b1 + 15 / 100 else b1);
          b3 = (if contains_money rw then b2 + 15 / 100 else b2);
          b4 = (if contains_any text [''contract'', ''sollicitatie'', ''baan'', ''gemeente'']
                then b3 + 15 / 100 else b3);
          b5 = (if contains_time rw then b4 + 1 / 10 else b4);
          b6 = b5 + stress emo * (15 / 100);
          b7 = (if e_label emo \<in> set [''boos'', ''gestrest'', ''negatief''] then b6 + 1 / 10 else b6);
          b8 = (if word_count rw > 40 then b7 + 5 / 100 else b7);
          b9 = (if word_count rw > 80 then b8 + 5 / 100 else b8)
      in max 0 (min 1 (py_round 3 b9)))"

definition estimate_novelty :: "string \<Rightarrow> string list \<Rightarrow> rat" where
  "estimate_novelty message history =
     (if history = [] then 1
      else let text = strip (lower message)
           in if text = [] then 0
              else let history_lw = history_lw_of history;
                       total = length history_lw
                   in if total = 0 then 1
                      else let w1 = to_words text;
                               similar = length (filter (\<lambda>h. h \<noteq> [] \<and>
                                   (let w2 = to_words h
                                    in w1 \<noteq> [] \<and> w2 \<noteq> [] \<and>
                                       (of_nat (card (set w1 \<inter> set w2))
                                          / of_nat (card (set w1 \<union> set w2)) :: rat) > 7 / 10))
                                   history_lw);
                               ratio = safe_div (of_nat similar) (of_nat total);
                               nov = 1 - ratio
                           in py_round 3 (max 0 (min 1 nov)))"

text \<open>\<open>int(n)\<close> on a run of ASCII digits.\<close>

definition int_of_digits :: "string \<Rightarrow> int" where
  "int_of_digits ds = fold (\<lambda>c acc. acc * 10 + (int (of_char c) - 48)) ds 0"

definition estimate_risk ::
  "string \<Rightarrow> IntentScore \<Rightarrow> EmotionScore \<Rightarrow> RawStats \<Rightarrow> rat" where
  "estimate_risk message int_s emo rw =
     (let text = lower message;
          b0 = (if contains_crypto rw then 2 / 10 + stress emo * (2 / 10) else (0 :: rat));
          b1 = (if contains_any text [''all-in'', ''all in'', ''alles inzetten'', ''alles erin'',
                                      ''max leverage'', ''x50'', ''x100'', ''gokken'', ''casino'',
                                      ''mogelijk verlies'']
                then b0 + 3 / 10 else b0);
          b2 = (if contains_any text [[CHR 0xE2, CHR 0x82, CHR 0xAC], ''euro''] then
                  (let numbers = runs is_digit [] text
                   in if numbers \<noteq> [] then
                        (let max_num = Max (set (map int_of_digits numbers))
                         in if max_num \<ge> 500 then b1 + 2 / 10
                            else if max_num \<ge> 200 then b1 + 1 / 10 else b1)
                      else b1)
                else b1);
          b3 = (if contains_money rw \<and> stress emo > 5 / 10 then b2 + 2 / 10 else b2);
          b4 = (if i_label int_s = ''smalltalk'' then b3 * (3 / 10) else b3)
      in max 0 (min 1 (py_round 3 b4)))"

text \<open>
  \<open>score_message\<close>.  \<open>_extract_raw_stats\<close> accepts a message that is \<open>None\<close>; the next call,
  \<open>_detect_emotion\<close>, applies \<open>.strip()\<close> to it and raises \<open>AttributeError\<close>.
\<close>

definition score_message :: "string \<Rightarrow> string option \<Rightarrow> string list option \<Rightarrow> error + FeatureVector" where
  "score_message now_iso message history_opt =
     (let history = (case history_opt of None \<Rightarrow> [] | Some h \<Rightarrow> h);
          rw = extract_raw_stats now_iso message
      in case message of
           None \<Rightarrow> Inl AttributeError
         | Some m \<Rightarrow>
             (let emo = detect_emotion m;
                  int_s = detect_intent m;
                  hab = detect_habit_strength m history;
                  imp = estimate_importance m int_s emo rw;
                  nov = estimate_novelty m history;
                  rsk = estimate_risk m int_s emo rw
              in Inr \<lparr>version = SCORE_VERSION, emotion = emo, intent = int_s,
                      behavior = \<lparr>importance = imp, novelty = nov, habit_strength = hab,
                                  risk = rsk\<rparr>,
                      raw = rw\<rparr>))"



section \<open>Properties of pattern derivation and upsert\<close>

subsection \<open>Thresholds and confidence\<close>

lemma explain_conf_mono: "m \<le> n \<Longrightarrow> explain_conf m \<le> explain_conf n"
  unfolding explain_conf_def by (intro min.mono add_mono mult_right_mono) simp_all

lemma search_conf_mono: "m \<le> n \<Longrightarrow> search_conf m \<le> search_conf n"
  unfolding search_conf_def by (intro min.mono add_mono mult_right_mono) simp_all

lemma friction_conf_mono: "m \<le> n \<Longrightarrow> friction_conf m \<le> friction_conf n"
  unfolding friction_conf_def by (intro min.mono add_mono mult_right_mono) simp_all

lemma derive_patterns_keys:
  "key ` set (derive_patterns now evs) =
     (if ask_explain_count evs \<ge> 4 then {''explain_level''} else {}) \<union>
     (if search_use_count evs \<ge> 5 then {''tool_usage:search''} else {}) \<union>
     (if friction_count evs \<ge> 6 then {''interaction:high_friction''} else {})"
  by (simp add: derive_patterns_def explain_rule_def search_rule_def friction_rule_def Let_def)

text \<open>
  On the counts that \<open>derive_patterns\<close> itself computes: a rule whose count is below its
  threshold (4, 5, 6) derives nothing, and no pattern with that rule's key is in the
  result; each confidence formula is monotonic non-decreasing in the count and never
  exceeds its ceiling (0.95, 0.92, 0.90); the confidence of every derived pattern is its
  rule's formula at the rule's count.
\<close>

lemma derive_patterns_on_own_counts:
  "(ask_explain_count evs < 4 \<longrightarrow>
      explain_rule now evs = [] \<and> ''explain_level'' \<notin> key ` set (derive_patterns now evs))
   \<and> (search_use_count evs < 5 \<longrightarrow>
      search_rule now evs = [] \<and> ''tool_usage:search'' \<notin> key ` set (derive_patterns now evs))
   \<and> (friction_count evs < 6 \<longrightarrow>
      friction_rule now evs = []
      \<and> ''interaction:high_friction'' \<notin> key ` set (derive_patterns now evs))
   \<and> (m \<le> n \<longrightarrow> explain_conf m \<le> explain_conf n) \<and> explain_conf n \<le> 95 / 100
   \<and> (m \<le> n \<longrightarrow> search_conf m \<le> search_conf n) \<and> search_conf n \<le> 92 / 100
   \<and> (m \<le> n \<longrightarrow> friction_conf m \<le> friction_conf n) \<and> friction_conf n \<le> 90 / 100
   \<and> (\<forall>p \<in> set (derive_patterns now evs).
         confidence p =
           (if key p = ''explain_level'' then explain_conf (ask_explain_count evs)
            else if key p = ''tool_usage:search'' then search_conf (search_use_count evs)
            else friction_conf (friction_count evs)))"
proof -
  have a: "ask_explain_count evs < 4 \<longrightarrow>
      explain_rule now evs = [] \<and> ''explain_level'' \<notin> key ` set (derive_patterns now evs)"
    by (simp add: derive_patterns_keys) (simp add: explain_rule_def)
  have b: "search_use_count evs < 5 \<longrightarrow>
      search_rule now evs = [] \<and> ''tool_usage:search'' \<notin> key ` set (derive_patterns now evs)"
    by (simp add: derive_patterns_keys) (simp add: search_rule_def)
  have c: "friction_count evs < 6 \<longrightarrow>
      friction_rule now evs = []
      \<and> ''interaction:high_friction'' \<notin> key ` set (derive_patterns now evs)"
    by (simp add: derive_patterns_keys) (simp add: friction_rule_def)
  have d: "explain_conf n \<le> 95 / 100" "search_conf n \<le> 92 / 100" "friction_conf n \<le> 90 / 100"
    unfolding explain_conf_def search_conf_def friction_conf_def by (rule min.cobounded1)+
  have e: "\<forall>p \<in> set (derive_patterns now evs).
         confidence p =
           (if key p = ''explain_level'' then explain_conf (ask_explain_count evs)
            else if key p = ''tool_usage:search'' then search_conf (search_use_count evs)
            else friction_conf (friction_count evs))"
    by (auto simp: derive_patterns_def explain_rule_def search_rule_def friction_rule_def Let_def)
  from a b c d e explain_conf_mono search_conf_mono friction_conf_mono show ?thesis
    by blast
qed

text \<open>
  The counts of the code never exceed the qualifying counts of the specification, so a
  rule whose qualifying count is below its threshold derives nothing.
\<close>

lemma ask_explain_count_le_spec: "ask_explain_count evs \<le> explain_qualifying_spec evs"
proof -
  have "length (filter (\<lambda>e. is_type e ''ask_explain'' \<or> has_tag e ''ask_explain'') evs)
      \<le> length (filter (\<lambda>e. is_type e ''ask_explain'' \<or> has_tag e ''ask_explain''
                              \<or> has_tag e ''pref:explain'') evs)"
    by (induction evs) auto
  thus ?thesis by (simp add: ask_explain_count_def explain_qualifying_spec_def)
qed

lemma friction_count_le_spec: "friction_count evs \<le> friction_qualifying_spec evs"
proof -
  have "length (filter (\<lambda>e. is_type e ''correction'' \<or> is_type e ''frustration''
                              \<or> has_tag e ''correction'' \<or> has_tag e ''frustration'') evs)
      \<le> length (filter (\<lambda>e. is_type e ''correction'' \<or> is_type e ''frustration''
                              \<or> has_tag e ''correction'' \<or> has_tag e ''frustration''
                              \<or> has_tag e ''anomaly:friction'') evs)"
    by (induction evs) auto
  thus ?thesis by (simp add: friction_count_def friction_qualifying_spec_def)
qed

lemma below_qualifying_threshold_no_pattern:
  "(explain_qualifying_spec evs < 4 \<longrightarrow> explain_rule now evs = [])
   \<and> (search_use_count evs < 5 \<longrightarrow> search_rule now evs = [])
   \<and> (friction_qualifying_spec evs < 6 \<longrightarrow> friction_rule now evs = [])"
  using ask_explain_count_le_spec[of evs] friction_count_le_spec[of evs]
  by (simp add: explain_rule_def search_rule_def friction_rule_def)

text \<open>
  C6.  As a function of the qualifying count the confidence that \<open>derive_patterns\<close>
  gives is not monotonic: five events of type \<open>ask_explain\<close> have qualifying count 5 and
  give the preference confidence 0.63, while four such events and two events tagged
  \<open>pref:explain\<close> have qualifying count 6 and give it confidence 0.55.  Six events tagged
  \<open>anomaly:friction\<close> have qualifying count 6, the friction threshold, and give no
  pattern at all.
\<close>

theorem derive_patterns_confidence_drops_with_qualifying_count:
  "explain_qualifying_spec (replicate 5 (typed_event ''ask_explain'')) = 5
   \<and> map confidence (derive_patterns 200 (replicate 5 (typed_event ''ask_explain''))) = [63 / 100]
   \<and> explain_qualifying_spec (replicate 4 (typed_event ''ask_explain'')
                                @ replicate 2 (tagged_event [''pref:explain''] 100)) = 6
   \<and> map confidence (derive_patterns 200 (replicate 4 (typed_event ''ask_explain'')
                                @ replicate 2 (tagged_event [''pref:explain''] 100))) = [55 / 100]
   \<and> friction_qualifying_spec (replicate 6 (tagged_event [''anomaly:friction''] 100)) = 6
   \<and> derive_patterns 200 (replicate 6 (tagged_event [''anomaly:friction''] 100)) = []"
  by (simp add: derive_patterns_def explain_rule_def search_rule_def friction_rule_def
      ask_explain_count_def search_use_count_def friction_count_def
      explain_qualifying_spec_def friction_qualifying_spec_def is_type_def has_tag_def
      payload_action_def explain_conf_def numeral_eq_Suc)

subsection \<open>The explain-preference and search-habit rules on concrete batches\<close>

text \<open>
  C2.  On a batch of four events whose only signal is the tag \<open>pref:explain\<close>,
  \<open>derive_patterns\<close> of \<open>api/learning/aggregator.py\<close> counts none of them and derives no
  pattern: its explain rule tests the event type and the tag \<open>ask_explain\<close> only.
\<close>

theorem derive_patterns_skips_pref_explain_tag:
  "ask_explain_count (replicate 4 (tagged_event [''pref:explain''] 100)) = 0
   \<and> derive_patterns 200 (replicate 4 (tagged_event [''pref:explain''] 100)) = []"
  by (simp add: derive_patterns_def explain_rule_def search_rule_def friction_rule_def
      ask_explain_count_def search_use_count_def friction_count_def is_type_def has_tag_def
      payload_action_def numeral_eq_Suc)

text \<open>
  C5.  On a batch of five events tagged \<open>tool:search\<close>, all created at time 100,
  \<open>derive_patterns\<close> called at time 200 emits the search habit with count 5 and
  confidence 0.50, and stamps it with the time of the call, not with the time of the
  latest matching event.
\<close>

theorem derive_patterns_search_last_seen_is_now:
  "derive_patterns 200 (replicate 5 (tagged_event [''tool:search''] 100)) =
     [\<lparr>subject = ''user'', pattern_type = ''habit'', key = ''tool_usage:search'',
       val = JObj [(''count'', JInt 5)], confidence = 1 / 2,
       evidence = JObj [(''signals'', JArr [JStr ''tool:search'', JStr ''payload.action=search'']),
                        (''count'', JInt 5), (''threshold'', JInt 5)],
       last_seen = 200\<rparr>]"
  by (simp add: derive_patterns_def explain_rule_def search_rule_def friction_rule_def
      ask_explain_count_def search_use_count_def friction_count_def is_type_def has_tag_def
      payload_action_def search_conf_def numeral_eq_Suc)

text \<open>
  What the explain rule does count: four events of type \<open>ask_explain\<close>, or four events
  tagged \<open>ask_explain\<close>, give the preference with confidence 0.55.
\<close>

lemma derive_patterns_four_ask_explain:
  "derive_patterns now (replicate 4 (typed_event ''ask_explain'')) =
     [\<lparr>subject = ''user'', pattern_type = ''preference'', key = ''explain_level'',
       val = JObj [(''level'', JStr ''high'')], confidence = 55 / 100,
       evidence = JObj [(''event_type_or_tag'', JStr ''ask_explain''),
                        (''count'', JInt 4), (''threshold'', JInt 4)],
       last_seen = now\<rparr>]"
  by (simp add: derive_patterns_def explain_rule_def search_rule_def friction_rule_def
      ask_explain_count_def search_use_count_def friction_count_def is_type_def has_tag_def
      payload_action_def explain_conf_def numeral_eq_Suc)

lemma derive_patterns_four_ask_explain_tags:
  "map confidence (derive_patterns now (replicate 4 (tagged_event [''ask_explain''] t)))
     = [55 / 100]"
  by (simp add: derive_patterns_def explain_rule_def search_rule_def friction_rule_def
      ask_explain_count_def search_use_count_def friction_count_def is_type_def has_tag_def
      payload_action_def explain_conf_def numeral_eq_Suc)

subsection \<open>Upsert: one row per key, replaced and not accumulated\<close>

lemma key3_upsert_row:
  "map key3 (upsert_row p t) =
     (if key3 p \<in> set (map key3 t) then map key3 t else map key3 t @ [key3 p])"
  by (induction t) (auto simp: key3_def)

lemma distinct_upsert_row: "distinct (map key3 t) \<Longrightarrow> distinct (map key3 (upsert_row p t))"
  by (simp add: key3_upsert_row)

lemma distinct_fold_upsert:
  "distinct (map key3 t) \<Longrightarrow> distinct (map key3 (fold upsert_row ps t))"
  by (induction ps arbitrary: t) (simp_all add: distinct_upsert_row)

lemma upsert_row_stores: "\<exists>r\<in>set (upsert_row p t). agrees p r \<and> last_seen r = last_seen p"
  by (induction t) (auto simp: agrees_def key3_def)

lemma upsert_row_other:
  "key3 q \<noteq> key3 p \<Longrightarrow> \<exists>r\<in>set t. agrees q r \<and> last_seen r = last_seen q \<Longrightarrow>
   \<exists>r\<in>set (upsert_row p t). agrees q r \<and> last_seen r = last_seen q"
  by (induction t) (auto simp: agrees_def key3_def)

lemma fold_upsert_keeps:
  "key3 q \<notin> set (map key3 ps) \<Longrightarrow> \<exists>r\<in>set t. agrees q r \<and> last_seen r = last_seen q \<Longrightarrow>
   \<exists>r\<in>set (fold upsert_row ps t). agrees q r \<and> last_seen r = last_seen q"
proof (induction ps arbitrary: t)
  case Nil
  then show ?case by simp
next
  case (Cons p ps)
  from Cons.prems have "key3 q \<noteq> key3 p" by auto
  with Cons.prems have "\<exists>r\<in>set (upsert_row p t). agrees q r \<and> last_seen r = last_seen q"
    by (intro upsert_row_other) auto
  with Cons show ?case by simp
qed

lemma fold_upsert_stores:
  "distinct (map key3 ps) \<Longrightarrow> q \<in> set ps \<Longrightarrow>
   \<exists>r\<in>set (fold upsert_row ps t). agrees q r \<and> last_seen r = last_seen q"
proof (induction ps arbitrary: t)
  case Nil
  then show ?case by simp
next
  case (Cons p ps)
  show ?case
  proof (cases "q = p")
    case True
    with Cons.prems have "key3 q \<notin> set (map key3 ps)" by auto
    moreover have "\<exists>r\<in>set (upsert_row p t). agrees q r \<and> last_seen r = last_seen q"
      using True upsert_row_stores by simp
    ultimately show ?thesis using fold_upsert_keeps by simp
  next
    case False
    with Cons show ?thesis by simp
  qed
qed

lemma same_key_same_row:
  assumes "distinct (map key3 t)" "a \<in> set t" "b \<in> set t" "key3 a = key3 b"
  shows "a = b"
  using assms by (meson distinct_map inj_onD)

lemma one_row_per_key:
  "distinct (map key3 t) \<Longrightarrow> r \<in> set t \<Longrightarrow> length (filter (\<lambda>r'. key3 r' = key3 r) t) = 1"
proof (induction t)
  case Nil
  then show ?case by simp
next
  case (Cons x xs)
  show ?case
  proof (cases "key3 x = key3 r")
    case True
    with Cons.prems have "\<forall>y\<in>set xs. key3 y \<noteq> key3 r" by (metis distinct.simps(2) imageI list.simps(9) list.set_map)
    hence "filter (\<lambda>r'. key3 r' = key3 r) xs = []" by (simp add: filter_empty_conv)
    with True show ?thesis by simp
  next
    case False
    with Cons show ?thesis by auto
  qed
qed

lemma upsert_row_noop:
  "distinct (map key3 t) \<Longrightarrow> \<exists>r\<in>set t. agrees p r \<Longrightarrow>
   map strip_seen (upsert_row p t) = map strip_seen t"
proof (induction t)
  case Nil
  then show ?case by simp
next
  case (Cons r rs)
  show ?case
  proof (cases "key3 r = key3 p")
    case True
    from Cons.prems(2) obtain a where a: "a \<in> set (r # rs)" "agrees p a" by blast
    hence "key3 a = key3 r" using True by (simp add: agrees_def)
    with Cons.prems(1) a(1) have "a = r" by (intro same_key_same_row[of "r # rs"]) simp_all
    with a True show ?thesis by (simp add: agrees_def strip_seen_def)
  next
    case False
    with Cons show ?thesis by (auto simp: agrees_def)
  qed
qed

lemma agrees_strip_seen: "agrees p (strip_seen r) = agrees p r"
  by (simp add: agrees_def strip_seen_def key3_def)

lemma agrees_strip: "strip_seen r = strip_seen r' \<Longrightarrow> agrees p r = agrees p r'"
  by (metis agrees_strip_seen)

lemma fold_upsert_noop:
  "distinct (map key3 t) \<Longrightarrow> \<forall>p\<in>set ps. \<exists>r\<in>set t. agrees p r \<Longrightarrow>
   map strip_seen (fold upsert_row ps t) = map strip_seen t"
proof (induction ps arbitrary: t)
  case Nil
  then show ?case by simp
next
  case (Cons p ps)
  have eq: "map strip_seen (upsert_row p t) = map strip_seen t"
    using Cons.prems by (intro upsert_row_noop) auto
  have d: "distinct (map key3 (upsert_row p t))"
    using Cons.prems(1) by (rule distinct_upsert_row)
  have "\<forall>q\<in>set ps. \<exists>r\<in>set (upsert_row p t). agrees q r"
  proof
    fix q assume "q \<in> set ps"
    with Cons.prems(2) obtain r where r: "r \<in> set t" "agrees q r" by auto
    hence "strip_seen r \<in> set (map strip_seen (upsert_row p t))" using eq by simp
    then obtain r' where "r' \<in> set (upsert_row p t)" "strip_seen r' = strip_seen r" by auto
    with r(2) show "\<exists>r\<in>set (upsert_row p t). agrees q r" using agrees_strip by blast
  qed
  with Cons.IH[OF d] eq show ?case by simp
qed

lemma derive_patterns_same_content:
  "map (\<lambda>p. (key3 p, val p, confidence p, evidence p)) (derive_patterns now2 evs) =
   map (\<lambda>p. (key3 p, val p, confidence p, evidence p)) (derive_patterns now1 evs)"
  by (simp add: derive_patterns_def explain_rule_def search_rule_def friction_rule_def
      key3_def Let_def)

lemma derive_patterns_last_seen: "p \<in> set (derive_patterns now evs) \<Longrightarrow> last_seen p = now"
  by (auto simp: derive_patterns_def explain_rule_def search_rule_def friction_rule_def Let_def
      split: if_splits)

lemma derive_patterns_distinct: "distinct (map key3 (derive_patterns now evs))"
  by (simp add: derive_patterns_def explain_rule_def search_rule_def friction_rule_def
      key3_def Let_def)

lemma content_of_strip:
  "map (\<lambda>r. (key3 r, val r, confidence r, evidence r)) t =
   map (\<lambda>r. (key3 r, val r, confidence r, evidence r)) (map strip_seen t)"
  by (simp add: strip_seen_def key3_def)

text \<open>
  C9.  Deriving and upserting twice over the same events, at any two times of call and
  from any table that has one row per key triple: the table still has one row per key
  triple; both runs derive the same keys, values, confidences and evidence; after the
  second run every derived pattern has exactly one row, holding the pattern's value,
  confidence and evidence and the time of the second call; and the second run changes
  no column of any row other than \<open>last_seen\<close>: it replaces, it does not add up.
\<close>

theorem derive_upsert_twice:
  assumes "distinct (map key3 table)"
  shows "let ps1 = derive_patterns now1 evs; t1 = fst (upsert_patterns table ps1);
             ps2 = derive_patterns now2 evs; t2 = fst (upsert_patterns t1 ps2)
         in distinct (map key3 t2)
          \<and> map (\<lambda>p. (key3 p, val p, confidence p, evidence p)) ps2 =
            map (\<lambda>p. (key3 p, val p, confidence p, evidence p)) ps1
          \<and> (\<forall>p\<in>set ps2.
                length (filter (\<lambda>r. key3 r = key3 p) t2) = 1
              \<and> (\<forall>r\<in>set t2. key3 r = key3 p \<longrightarrow>
                    val r = val p \<and> confidence r = confidence p \<and> evidence r = evidence p
                  \<and> last_seen r = now2))
          \<and> map (\<lambda>r. (key3 r, val r, confidence r, evidence r)) t2 =
            map (\<lambda>r. (key3 r, val r, confidence r, evidence r)) t1"
proof -
  define ps1 where "ps1 = derive_patterns now1 evs"
  define t1 where "t1 = fold upsert_row ps1 table"
  define ps2 where "ps2 = derive_patterns now2 evs"
  define t2 where "t2 = fold upsert_row ps2 t1"
  have d1: "distinct (map key3 t1)"
    unfolding t1_def using assms by (rule distinct_fold_upsert)
  have d2: "distinct (map key3 t2)"
    unfolding t2_def using d1 by (rule distinct_fold_upsert)
  have same: "map (\<lambda>p. (key3 p, val p, confidence p, evidence p)) ps2 =
              map (\<lambda>p. (key3 p, val p, confidence p, evidence p)) ps1"
    unfolding ps1_def ps2_def by (rule derive_patterns_same_content)
  have dps: "distinct (map key3 ps1)" "distinct (map key3 ps2)"
    unfolding ps1_def ps2_def by (rule derive_patterns_distinct)+
  have in_t1: "\<forall>p\<in>set ps2. \<exists>r\<in>set t1. agrees p r"
  proof
    fix p assume "p \<in> set ps2"
    hence "(key3 p, val p, confidence p, evidence p)
             \<in> set (map (\<lambda>p. (key3 p, val p, confidence p, evidence p)) ps1)"
      using same by (metis (no_types, lifting) imageI list.set_map)
    then obtain q where q: "q \<in> set ps1" "key3 q = key3 p" "val q = val p"
        "confidence q = confidence p" "evidence q = evidence p"
      by auto
    from fold_upsert_stores[OF dps(1) q(1), of table] obtain r where
      "r \<in> set t1" "agrees q r" unfolding t1_def by blast
    with q show "\<exists>r\<in>set t1. agrees p r" by (auto simp: agrees_def)
  qed
  have noop: "map strip_seen t2 = map strip_seen t1"
    unfolding t2_def using d1 in_t1 by (rule fold_upsert_noop)
  have content: "map (\<lambda>r. (key3 r, val r, confidence r, evidence r)) t2 =
                 map (\<lambda>r. (key3 r, val r, confidence r, evidence r)) t1"
    using noop content_of_strip[of t1] content_of_strip[of t2] by simp
  have rows: "\<forall>p\<in>set ps2.
                length (filter (\<lambda>r. key3 r = key3 p) t2) = 1
              \<and> (\<forall>r\<in>set t2. key3 r = key3 p \<longrightarrow>
                    val r = val p \<and> confidence r = confidence p \<and> evidence r = evidence p
                  \<and> last_seen r = now2)"
  proof
    fix p assume p: "p \<in> set ps2"
    from fold_upsert_stores[OF dps(2) p, of t1] obtain r0 where
      r0: "r0 \<in> set t2" "agrees p r0" "last_seen r0 = last_seen p" unfolding t2_def by blast
    have ls: "last_seen p = now2" using p unfolding ps2_def by (rule derive_patterns_last_seen)
    have k: "key3 r0 = key3 p" using r0(2) by (simp add: agrees_def)
    have one: "length (filter (\<lambda>r. key3 r = key3 p) t2) = 1"
      using one_row_per_key[OF d2 r0(1)] k by simp
    have "\<forall>r\<in>set t2. key3 r = key3 p \<longrightarrow>
            val r = val p \<and> confidence r = confidence p \<and> evidence r = evidence p
          \<and> last_seen r = now2"
    proof (intro ballI impI)
      fix r assume "r \<in> set t2" "key3 r = key3 p"
      hence "r = r0" using same_key_same_row[OF d2 _ r0(1)] k by simp
      with r0 ls show "val r = val p \<and> confidence r = confidence p \<and> evidence r = evidence p
          \<and> last_seen r = now2" by (simp add: agrees_def)
    qed
    with one show "length (filter (\<lambda>r. key3 r = key3 p) t2) = 1
              \<and> (\<forall>r\<in>set t2. key3 r = key3 p \<longrightarrow>
                    val r = val p \<and> confidence r = confidence p \<and> evidence r = evidence p
                  \<and> last_seen r = now2)" by blast
  qed
  from d2 same rows content show ?thesis
    unfolding Let_def upsert_patterns_def fst_conv
    unfolding ps1_def[symmetric] t1_def[symmetric] ps2_def[symmetric] t2_def[symmetric]
    by blast
qed

theorem derive_upsert_twice_witness:
  "map (\<lambda>r. (key r, val r, confidence r, last_seen r))
     (fst (upsert_patterns
        (fst (upsert_patterns [] (derive_patterns 100 (replicate 4 (typed_event ''ask_explain'')))))
        (derive_patterns 200 (replicate 4 (typed_event ''ask_explain'')))))
   = [(''explain_level'', JObj [(''level'', JStr ''high'')], 55 / 100, 200)]"
proof -
  have d: "distinct (map key3 ([] :: pattern list))" by simp
  have dp: "\<And>now. derive_patterns now (replicate 4 (typed_event ''ask_explain'')) =
     [\<lparr>subject = ''user'', pattern_type = ''preference'', key = ''explain_level'',
          val = JObj [(''level'', JStr ''high'')],
          confidence = 55 / 100,
          evidence = JObj [(''event_type_or_tag'', JStr ''ask_explain''),
                           (''count'', JInt 4), (''threshold'', JInt 4)],
          last_seen = now\<rparr>]"
    by (simp add: derive_patterns_def explain_rule_def search_rule_def friction_rule_def
      ask_explain_count_def search_use_count_def friction_count_def is_type_def has_tag_def
      payload_action_def explain_conf_def numeral_eq_Suc)
  show ?thesis
    using derive_upsert_twice[OF d, of 100 "replicate 4 (typed_event ''ask_explain'')" 200]
    by (simp add: dp upsert_patterns_def key3_def)
qed

section \<open>Properties of the composite score\<close>

subsection \<open>Bounds of the composite score\<close>

lemma py_round_1_bounds:
  assumes "0 \<le> x" "x \<le> 100"
  shows "0 \<le> py_round 1 x \<and> py_round 1 x \<le> 100 \<and> (\<exists>k::int. py_round 1 x = of_int k / 10)"
proof -
  define y where "y = x * 10"
  define f where "f = \<lfloor>y\<rfloor>"
  define k where "k = (if y - of_int f < 1 / 2 then f else if 1 / 2 < y - of_int f then f + 1
                 else if even f then f else f + 1)"
  have r: "py_round 1 x = of_int k / 10"
    by (simp add: py_round_def Let_def k_def f_def y_def)
  have y: "0 \<le> y" "y \<le> 1000" using assms by (simp_all add: y_def)
  have f0: "0 \<le> f" using y(1) by (simp add: f_def)
  have f1: "f \<le> 1000" using y(2) unfolding f_def by (simp add: floor_le_iff)
  have k0: "0 \<le> k" using f0 by (simp add: k_def)
  have k1: "k \<le> 1000"
  proof (cases "k = f")
    case True
    with f1 show ?thesis by simp
  next
    case False
    hence kf: "k = f + 1" and "\<not> y - of_int f < 1 / 2" by (auto simp: k_def split: if_splits)
    hence "(of_int f :: rat) + 1 / 2 \<le> 1000" using y(2) by linarith
    hence "(of_int f :: rat) < of_int 1000" by simp
    hence "f < 1000" by (simp only: of_int_less_iff)
    with kf show ?thesis by simp
  qed
  from k0 k1 have "0 \<le> (of_int k :: rat) / 10" "(of_int k :: rat) / 10 \<le> 100" by simp_all
  with r show ?thesis by auto
qed

lemma key_weight_nonneg: "key_weight k = Inr w \<Longrightarrow> 0 \<le> w"
  by (cases k) (auto split: if_splits)

lemma modules_loop_nonneg:
  "0 \<le> b \<Longrightarrow> 0 \<le> s \<Longrightarrow> modules_loop b ms s = Inr r \<Longrightarrow> 0 \<le> r"
proof (induction ms arbitrary: s)
  case Nil
  then show ?case by simp
next
  case (Cons m ms)
  from Cons.prems(3) obtain w where w: "key_weight (ms_key m) = Inr w"
    by (cases "key_weight (ms_key m)") simp_all
  hence w0: "0 \<le> w" by (rule key_weight_nonneg)
  define s' where "s' = (if lower (if ms_status m = [] then ''off'' else ms_status m) = ''ok''
                         then s + b * w
                         else if lower (if ms_status m = [] then ''off'' else ms_status m) = ''warn''
                         then s + b * (1 / 2) * w else s)"
  have "0 \<le> s'" using Cons.prems(1,2) w0 by (simp add: s'_def)
  moreover have "modules_loop b ms s' = Inr r"
    using Cons.prems(3) w by (simp add: s'_def Let_def)
  ultimately show ?case using Cons.IH Cons.prems(1) by blast
qed

lemma score_modules_bounds: "score_modules ms = Inr s \<Longrightarrow> 0 \<le> s \<and> s \<le> 35"
proof (cases "ms = []")
  case True
  assume "score_modules ms = Inr s"
  with True show ?thesis by (simp add: score_modules_def)
next
  case False
  assume a: "score_modules ms = Inr s"
  define b where "b = MAX_MODULE_POINTS / of_nat (max (length ms) 1)"
  have b0: "0 \<le> b" by (simp add: b_def MAX_MODULE_POINTS_def)
  from a False obtain r where r: "modules_loop b ms 0 = Inr r" "s = min r MAX_MODULE_POINTS"
    unfolding score_modules_def Let_def b_def[symmetric]
    by (cases "modules_loop b ms 0") auto
  from modules_loop_nonneg[OF b0 _ r(1)] have "0 \<le> r" by simp
  with r(2) show ?thesis by (simp add: MAX_MODULE_POINTS_def)
qed

lemma score_self_learning_bounds:
  assumes "score_self_learning sl = Inr s"
  shows "0 \<le> s \<and> s \<le> 50"
proof -
  define first where "first =
    (if avg_score sl = JNull then Inr (if has_data sl then 10 else 0 :: rat)
     else case py_number (avg_score sl) of
            None \<Rightarrow> Inl TypeError
          | Some a \<Rightarrow> Inr ((if has_data sl then 10 else 0) + (max 0 (min a 10) / 10) * 30))"
  have unf: "score_self_learning sl =
     (case first of
        Inl e \<Rightarrow> Inl e
      | Inr base1 \<Rightarrow>
          (case score_emotion (last_mood sl) of
             Inl e \<Rightarrow> Inl e
           | Inr emo_bonus \<Rightarrow>
               Inr (max 0 (min (base1 + (of_int (max 0 (min (preferences_count sl) 10)) / 10) * 10
                                + emo_bonus) MAX_SELF_POINTS))))"
    unfolding score_self_learning_def first_def Let_def by (rule refl)
  from assms unf obtain base1 where b: "first = Inr base1"
    by (cases first) simp_all
  from assms unf b obtain emo where e: "score_emotion (last_mood sl) = Inr emo"
    by (cases "score_emotion (last_mood sl)") simp_all
  from assms unf b e have
    "s = max 0 (min (base1 + (of_int (max 0 (min (preferences_count sl) 10)) / 10) * 10 + emo)
                MAX_SELF_POINTS)"
    by simp
  thus ?thesis by (simp add: MAX_SELF_POINTS_def)
qed

lemma score_usage_bounds: "score_usage now ls = Inr u \<Longrightarrow> 0 \<le> u \<and> u \<le> 15"
  by (auto simp: score_usage_def MAX_USAGE_POINTS_def Let_def
      split: option.splits datetime.splits if_splits)

lemma calculate_result:
  assumes "calculate_slimheidsmeter f ios pr now mr slr lsr = Inr r"
  shows "\<exists>modules sl ls a b c.
           map_raising (to_ModuleStatus pr) mr = Inr modules
         \<and> to_SelfLearningStatus ios slr = Inr sl
         \<and> extract_last_session f ios lsr = Inr ls
         \<and> score_modules modules = Inr a \<and> score_self_learning sl = Inr b
         \<and> score_usage now ls = Inr c
         \<and> r = py_round 1 (max 0 (min (a + b + c) 100))"
proof -
  note d = calculate_slimheidsmeter_def
  from assms obtain modules where m: "map_raising (to_ModuleStatus pr) mr = Inr modules"
    unfolding d by (cases "map_raising (to_ModuleStatus pr) mr") simp_all
  from assms m obtain sl where s: "to_SelfLearningStatus ios slr = Inr sl"
    unfolding d by (cases "to_SelfLearningStatus ios slr") simp_all
  from assms m s obtain ls where l: "extract_last_session f ios lsr = Inr ls"
    unfolding d by (cases "extract_last_session f ios lsr") simp_all
  from assms m s l obtain a where a: "score_modules modules = Inr a"
    unfolding d by (cases "score_modules modules") simp_all
  from assms m s l a obtain b where b: "score_self_learning sl = Inr b"
    unfolding d by (cases "score_self_learning sl") simp_all
  from assms m s l a b obtain c where c: "score_usage now ls = Inr c"
    unfolding d by (cases "score_usage now ls") simp_all
  from assms m s l a b c have "r = py_round 1 (max 0 (min (a + b + c) 100))"
    unfolding d by (simp add: Let_def)
  with m s l a b c show ?thesis by blast
qed

lemma calculate_bounds:
  assumes "calculate_slimheidsmeter f ios pr now mr slr lsr = Inr r"
  shows "0 \<le> r \<and> r \<le> 100 \<and> (\<exists>k::int. r = of_int k / 10)"
proof -
  from calculate_result[OF assms] obtain t where "r = py_round 1 (max 0 (min t 100))"
    by blast
  thus ?thesis using py_round_1_bounds[of "max 0 (min t 100)"] by simp
qed

text \<open>
  Whenever they return, the three sub-scores are in [0, 35], [0, 50] and [0, 15], and the
  composite score is in [0, 100] and a multiple of 0.1.
\<close>

lemma calculate_slimheidsmeter_bounded:
  "(\<forall>s. score_modules ms = Inr s \<longrightarrow> 0 \<le> s \<and> s \<le> 35)
   \<and> (\<forall>s. score_self_learning sl = Inr s \<longrightarrow> 0 \<le> s \<and> s \<le> 50)
   \<and> (\<forall>u. score_usage now ls = Inr u \<longrightarrow> 0 \<le> u \<and> u \<le> 15)
   \<and> (\<forall>r. calculate_slimheidsmeter f ios pr now mr slr lsr = Inr r \<longrightarrow>
          0 \<le> r \<and> r \<le> 100 \<and> (\<exists>k::int. r = of_int k / 10))"
  using score_modules_bounds[of ms] score_self_learning_bounds[of sl]
    score_usage_bounds[of now ls] calculate_bounds[of f ios pr now mr slr lsr]
  by blast

subsection \<open>Calls that raise, and one that returns\<close>

text \<open>
  C1.  A raw last-session dictionary with one user whose \<open>last_action\<close> has no UTC
  offset, and a \<open>fromisoformat\<close> that reads that text as the naive datetime it denotes:
  \<open>_score_usage\<close> subtracts it from the aware \<open>now\<close>, and \<open>calculate_slimheidsmeter\<close>
  raises \<open>TypeError\<close> instead of returning a score.
\<close>

theorem calculate_slimheidsmeter_naive_timestamp_raises:
  "calculate_slimheidsmeter
     (\<lambda>s. if s = ''2025-01-01T00:00:00'' then Some (Naive 1735689600000000) else None)
     (\<lambda>s. None) (\<lambda>v. ''None'') 1735693200000000
     [] (JObj [])
     (JObj [(''users'', JObj [(''1'', JObj [(''last_action'', JStr ''2025-01-01T00:00:00''),
                                           (''estimated_dev_minutes'', JInt 90)])])])
   = Inl TypeError"
  by code_simp

text \<open>
  Other contents of the raw dictionaries that make the call raise: an average that is a
  string, a mood that is a number, a user that is \<open>None\<close>, and development minutes
  that \<open>int\<close> cannot read.
\<close>

lemma calculate_slimheidsmeter_str_avg_score_raises:
  "calculate_slimheidsmeter (\<lambda>s. None) (\<lambda>s. None) (\<lambda>v. ''None'') 0 []
     (JObj [(''avg_score'', JStr ''high'')]) JNull = Inl TypeError"
  by code_simp

lemma calculate_slimheidsmeter_int_last_mood_raises:
  "calculate_slimheidsmeter (\<lambda>s. None) (\<lambda>s. None) (\<lambda>v. ''None'') 0 []
     (JObj [(''last_mood'', JInt 3)]) JNull = Inl AttributeError"
  by code_simp

lemma calculate_slimheidsmeter_null_user_raises:
  "calculate_slimheidsmeter (\<lambda>s. None) (\<lambda>s. None) (\<lambda>v. ''None'') 0 []
     (JObj []) (JObj [(''users'', JObj [(''1'', JNull)])]) = Inl AttributeError"
  by code_simp

lemma calculate_slimheidsmeter_bad_minutes_raises:
  "calculate_slimheidsmeter (\<lambda>s. None) (\<lambda>s. None) (\<lambda>v. ''None'') 0 []
     (JObj []) (JObj [(''users'', JObj [(''1'', JObj [(''estimated_dev_minutes'', JStr ''abc'')])])])
   = Inl ValueError"
  by code_simp

text \<open>
  A call that returns: a core module that is ok and one that warns, an average of 999, an
  angry mood, and a user active an hour ago with 90 development minutes give
  34.125 + 26 + 15, rounded to 75.1.
\<close>

lemma calculate_slimheidsmeter_example:
  "calculate_slimheidsmeter
     (\<lambda>s. if s = ''2025-01-01T00:00:00+00:00'' then Some (Aware 1735689600000000) else None)
     (\<lambda>s. None) (\<lambda>v. ''None'') 1735693200000000
     [JObj [(''key'', JStr ''auth''), (''status'', JStr ''OK'')],
      JObj [(''key'', JStr ''database''), (''status'', JStr ''warn'')]]
     (JObj [(''has_data'', JBool False), (''avg_score'', JInt 999), (''last_mood'', JStr ''boos'')])
     (JObj [(''users'', JObj [(''1'', JObj [(''last_action'', JStr ''2025-01-01T00:00:00+00:00''),
                                           (''estimated_dev_minutes'', JInt 90)])])])
   = Inr (751 / 10)"
  by code_simp

subsection \<open>The usage score\<close>

text \<open>
  C8.  On the same last-session dictionary, whose one user was active an hour before
  \<open>now\<close> and has 90 development minutes, the points of the specification are 15; the
  code extracts the naive datetime and \<open>_score_usage\<close> raises \<open>TypeError\<close>.
\<close>

theorem score_usage_naive_timestamp_raises:
  "extract_last_session
     (\<lambda>s. if s = ''2025-01-01T00:00:00'' then Some (Naive 1735689600000000) else None)
     (\<lambda>s. None)
     (JObj [(''users'', JObj [(''1'', JObj [(''last_action'', JStr ''2025-01-01T00:00:00''),
                                           (''estimated_dev_minutes'', JInt 90)])])])
     = Inr \<lparr>last_action = Some (Naive 1735689600000000), estimated_dev_minutes = 90\<rparr>
   \<and> score_usage 1735693200000000
        \<lparr>last_action = Some (Naive 1735689600000000), estimated_dev_minutes = 90\<rparr>
        = Inl TypeError
   \<and> usage_points_spec (hours_between 1735689600000000 1735693200000000) 90 = 15"
  by code_simp

subsection \<open>The most recent user\<close>

lemma most_recent_loop_origin:
  "most_recent_loop f target us = Inr res \<Longrightarrow>
   res = target
   \<or> (\<exists>u \<in> snd ` set us. \<exists>d. parse_last_action f u = Inr (Some d) \<and> res = Some (u, d))"
proof (induction us arbitrary: target)
  case Nil
  then show ?case by simp
next
  case (Cons a us)
  obtain uid u where a: "a = (uid, u)" by (cases a)
  from Cons.prems obtain target' where
    step: "most_recent_loop f target' us = Inr res"
      "target' = target \<or> (\<exists>d. parse_last_action f u = Inr (Some d) \<and> target' = Some (u, d))"
    unfolding a by (auto split: option.splits sum.splits bool.splits)
  from Cons.IH[OF step(1)] step(2) show ?case unfolding a by force
qed

lemma most_recent_loop_None:
  "most_recent_loop f target us = Inr None \<Longrightarrow>
   target = None \<and> (\<forall>u \<in> snd ` set us. parse_last_action f u = Inr None)"
proof (induction us arbitrary: target)
  case Nil
  then show ?case by simp
next
  case (Cons a us)
  obtain uid u where a: "a = (uid, u)" by (cases a)
  from Cons.prems obtain target' where
    step: "most_recent_loop f target' us = Inr None"
      "(target' = target \<and> (parse_last_action f u = Inr None \<or> target \<noteq> None))
       \<or> (\<exists>d. target' = Some (u, d))"
    unfolding a by (auto split: option.splits sum.splits bool.splits)
  from Cons.IH[OF step(1)] step(2) show ?case unfolding a by auto
qed

lemma most_recent_loop_latest:
  "most_recent_loop f target us = Inr (Some (ru, Aware t)) \<Longrightarrow>
   (\<forall>tu tt. target = Some (tu, Aware tt) \<longrightarrow> tt \<le> t)
   \<and> (\<forall>u \<in> snd ` set us. \<forall>t'. parse_last_action f u = Inr (Some (Aware t')) \<longrightarrow> t' \<le> t)"
proof (induction us arbitrary: target)
  case Nil
  then show ?case by simp
next
  case (Cons a us)
  obtain uid u where a: "a = (uid, u)" by (cases a)
  from Cons.prems obtain x where x: "parse_last_action f u = Inr x"
    unfolding a by (cases "parse_last_action f u") simp_all
  show ?case
  proof (cases x)
    case None
    with Cons.prems x have "most_recent_loop f target us = Inr (Some (ru, Aware t))"
      unfolding a by simp
    from Cons.IH[OF this] None x show ?thesis unfolding a by simp
  next
    case (Some dt)
    note parsed = x[unfolded Some]
    show ?thesis
    proof (cases target)
      case None
      with Cons.prems parsed have "most_recent_loop f (Some (u, dt)) us = Inr (Some (ru, Aware t))"
        unfolding a by simp
      from Cons.IH[OF this] None parsed show ?thesis unfolding a by simp
    next
      case (Some p)
      obtain tu tdt where p: "p = (tu, tdt)" by (cases p)
      from Cons.prems parsed Some p obtain b where b: "dt_gt dt tdt = Inr b"
        unfolding a by (cases "dt_gt dt tdt") simp_all
      show ?thesis
      proof (cases b)
        case True
        with Cons.prems parsed Some p b
        have "most_recent_loop f (Some (u, dt)) us = Inr (Some (ru, Aware t))"
          unfolding a by simp
        from Cons.IH[OF this] have
          ih: "\<forall>tu tt. Some (u, dt) = Some (tu, Aware tt) \<longrightarrow> tt \<le> t"
              "\<forall>u \<in> snd ` set us. \<forall>t'. parse_last_action f u = Inr (Some (Aware t')) \<longrightarrow> t' \<le> t"
          by simp_all
        from b True have "\<forall>x y. dt = Aware x \<and> tdt = Aware y \<longrightarrow> y < x"
          by (cases dt; cases tdt) simp_all
        moreover from b have "\<forall>y. tdt = Aware y \<longrightarrow> (\<exists>x. dt = Aware x)"
          by (cases dt; cases tdt) simp_all
        ultimately show ?thesis using ih parsed Some p unfolding a by fastforce
      next
        case False
        with Cons.prems parsed Some p b
        have "most_recent_loop f target us = Inr (Some (ru, Aware t))"
          unfolding a by simp
        from Cons.IH[OF this] have
          ih: "\<forall>tu tt. target = Some (tu, Aware tt) \<longrightarrow> tt \<le> t"
              "\<forall>u \<in> snd ` set us. \<forall>t'. parse_last_action f u = Inr (Some (Aware t')) \<longrightarrow> t' \<le> t"
          by simp_all
        from b False have "\<forall>x y. dt = Aware x \<and> tdt = Aware y \<longrightarrow> x \<le> y"
          by (cases dt; cases tdt) simp_all
        moreover from b have "\<forall>x. dt = Aware x \<longrightarrow> (\<exists>y. tdt = Aware y)"
          by (cases dt; cases tdt) simp_all
        ultimately show ?thesis using ih parsed Some p unfolding a by fastforce
      qed
    qed
  qed
qed

lemma most_recent_loop_returns:
  assumes "\<forall>u \<in> snd ` set us. \<exists>x. parse_last_action f u = Inr x \<and> (\<forall>t. x \<noteq> Some (Naive t))"
      and "\<forall>tu t. target \<noteq> Some (tu, Naive t)"
  shows "\<exists>res. most_recent_loop f target us = Inr res \<and> (\<forall>tu t. res \<noteq> Some (tu, Naive t))"
  using assms
proof (induction us arbitrary: target)
  case Nil
  then show ?case by simp
next
  case (Cons a us)
  obtain uid u where a: "a = (uid, u)" by (cases a)
  have rest: "\<forall>u \<in> snd ` set us. \<exists>x. parse_last_action f u = Inr x \<and> (\<forall>t. x \<noteq> Some (Naive t))"
    using Cons.prems(1) by simp
  from Cons.prems(1) a obtain x where
    x: "parse_last_action f u = Inr x" "\<forall>t. x \<noteq> Some (Naive t)" by auto
  show ?case
  proof (cases x)
    case None
    with Cons.IH[OF rest Cons.prems(2)] x show ?thesis unfolding a by simp
  next
    case (Some dt)
    with x obtain t where dt: "dt = Aware t" by (cases dt) auto
    have t': "\<forall>tu t'. Some (u, Aware t) \<noteq> Some (tu, Naive t')" by simp
    show ?thesis
    proof (cases target)
      case None
      with Cons.IH[OF rest t'] Some dt x show ?thesis unfolding a by simp
    next
      case (Some p)
      obtain tu d where p: "p = (tu, d)" by (cases p)
      with Some Cons.prems(2) obtain tt where d: "d = Aware tt" by (cases d) auto
      show ?thesis
        using Cons.IH[OF rest t'] Cons.IH[OF rest Cons.prems(2)] Some p d dt x
          \<open>x = Some dt\<close>
        unfolding a by (cases "tt < t") simp_all
    qed
  qed
qed

lemma score_usage_aware:
  "score_usage now \<lparr>last_action = Some (Aware t), estimated_dev_minutes = m\<rparr>
     = Inr (usage_points_spec (hours_between t now) m)"
  by (simp add: score_usage_def usage_points_spec_def hours_between_def MAX_USAGE_POINTS_def Let_def)

lemma extract_last_session_no_users:
  "extract_last_session f ios JNull = Inr \<lparr>last_action = None, estimated_dev_minutes = 0\<rparr>"
  "extract_last_session f ios (JObj []) = Inr \<lparr>last_action = None, estimated_dev_minutes = 0\<rparr>"
  "extract_last_session f ios (JObj [(''users'', JNull)])
     = Inr \<lparr>last_action = None, estimated_dev_minutes = 0\<rparr>"
  "extract_last_session f ios (JObj [(''users'', JObj [])])
     = Inr \<lparr>last_action = None, estimated_dev_minutes = 0\<rparr>"
  by (simp_all add: extract_last_session_def py_get_def dict_get_or_def dict_get_def)

lemma extract_last_session_users:
  "extract_last_session f ios (JObj [(''users'', JObj ((uid0, first) # others))]) =
     (case most_recent_loop f None ((uid0, first) # others) of
        Inl e \<Rightarrow> Inl e
      | Inr None \<Rightarrow>
          (case parse_last_action f first of
             Inl e \<Rightarrow> Inl e
           | Inr dt \<Rightarrow>
               (case est_minutes ios first of
                  Inl e \<Rightarrow> Inl e
                | Inr est \<Rightarrow> Inr \<lparr>last_action = dt, estimated_dev_minutes = est\<rparr>))
      | Inr (Some (target_user, target_dt)) \<Rightarrow>
          (case est_minutes ios target_user of
             Inl e \<Rightarrow> Inl e
           | Inr est \<Rightarrow> Inr \<lparr>last_action = Some target_dt, estimated_dev_minutes = est\<rparr>))"
  by (simp add: extract_last_session_def py_get_def dict_get_or_def dict_get_def)

text \<open>
  Where the claim about the usage score does hold: a \<open>users\<close> dictionary whose users are
  dictionaries with a \<open>last_action\<close> that is read as a timezone-aware datetime or not at
  all, and with development minutes that \<open>int\<close> can read.  If no user has a readable
  \<open>last_action\<close> the usage score is 0; otherwise the session extracted is that of a user
  whose instant is the latest of all, with that user's development minutes, and the usage
  score is \<open>usage_points_spec\<close> of the hours elapsed since that instant and of those
  minutes.
\<close>

lemma usage_score_of_most_recent_user:
  assumes readable:
    "\<forall>u \<in> snd ` set us. \<exists>x. parse_last_action f u = Inr x \<and> (\<forall>t. x \<noteq> Some (Naive t))"
      and minutes: "\<forall>u \<in> snd ` set us. \<exists>n. est_minutes ios u = Inr n"
  shows
   "((\<forall>u \<in> snd ` set us. parse_last_action f u = Inr None) \<longrightarrow>
       (\<exists>ls. extract_last_session f ios (JObj [(''users'', JObj us)]) = Inr ls
             \<and> score_usage now ls = Inr 0))
    \<and> ((\<exists>u \<in> snd ` set us. parse_last_action f u \<noteq> Inr None) \<longrightarrow>
       (\<exists>u \<in> snd ` set us. \<exists>t n.
           parse_last_action f u = Inr (Some (Aware t))
         \<and> (\<forall>u' \<in> snd ` set us. \<forall>t'. parse_last_action f u' = Inr (Some (Aware t')) \<longrightarrow> t' \<le> t)
         \<and> est_minutes ios u = Inr n
         \<and> extract_last_session f ios (JObj [(''users'', JObj us)])
             = Inr \<lparr>last_action = Some (Aware t), estimated_dev_minutes = n\<rparr>
         \<and> score_usage now \<lparr>last_action = Some (Aware t), estimated_dev_minutes = n\<rparr>
             = Inr (usage_points_spec (hours_between t now) n)))"
proof -
  have t0: "\<forall>tu t. (None :: (jval \<times> datetime) option) \<noteq> Some (tu, Naive t)" by simp
  from most_recent_loop_returns[OF readable t0] obtain res where
    res: "most_recent_loop f None us = Inr res" "\<forall>tu t. res \<noteq> Some (tu, Naive t)" by blast
  have A: "(\<forall>u \<in> snd ` set us. parse_last_action f u = Inr None) \<longrightarrow>
       (\<exists>ls. extract_last_session f ios (JObj [(''users'', JObj us)]) = Inr ls
             \<and> score_usage now ls = Inr 0)"
  proof
    assume none: "\<forall>u \<in> snd ` set us. parse_last_action f u = Inr None"
    from most_recent_loop_origin[OF res(1)] none have r: "res = None" by auto
    show "\<exists>ls. extract_last_session f ios (JObj [(''users'', JObj us)]) = Inr ls
             \<and> score_usage now ls = Inr 0"
    proof (cases us)
      case Nil
      thus ?thesis by (simp add: extract_last_session_no_users score_usage_def)
    next
      case (Cons a rest)
      obtain uid0 first where a: "a = (uid0, first)" by (cases a)
      with Cons none have p: "parse_last_action f first = Inr None" by simp
      from Cons a minutes obtain n where n: "est_minutes ios first = Inr n" by auto
      from res(1) r Cons a have l: "most_recent_loop f None ((uid0, first) # rest) = Inr None"
        by simp
      show ?thesis
        unfolding Cons a extract_last_session_users l
        by (simp add: p n score_usage_def)
    qed
  qed
  have B: "(\<exists>u \<in> snd ` set us. parse_last_action f u \<noteq> Inr None) \<longrightarrow>
       (\<exists>u \<in> snd ` set us. \<exists>t n.
           parse_last_action f u = Inr (Some (Aware t))
         \<and> (\<forall>u' \<in> snd ` set us. \<forall>t'. parse_last_action f u' = Inr (Some (Aware t')) \<longrightarrow> t' \<le> t)
         \<and> est_minutes ios u = Inr n
         \<and> extract_last_session f ios (JObj [(''users'', JObj us)])
             = Inr \<lparr>last_action = Some (Aware t), estimated_dev_minutes = n\<rparr>
         \<and> score_usage now \<lparr>last_action = Some (Aware t), estimated_dev_minutes = n\<rparr>
             = Inr (usage_points_spec (hours_between t now) n))"
  proof
    assume some: "\<exists>u \<in> snd ` set us. parse_last_action f u \<noteq> Inr None"
    have "res \<noteq> None"
    proof
      assume "res = None"
      with res(1) most_recent_loop_None[of f None us] some show False by auto
    qed
    then obtain ru d where rd: "res = Some (ru, d)" by (cases res) auto
    with res(2) obtain t where d: "d = Aware t" by (cases d) auto
    from most_recent_loop_origin[OF res(1)] rd d
    have mem: "ru \<in> snd ` set us" "parse_last_action f ru = Inr (Some (Aware t))" by auto
    from most_recent_loop_latest[of f None us ru t] res(1) rd d
    have latest: "\<forall>u' \<in> snd ` set us. \<forall>t'. parse_last_action f u' = Inr (Some (Aware t')) \<longrightarrow> t' \<le> t"
      by simp
    from mem(1) minutes obtain n where n: "est_minutes ios ru = Inr n" by auto
    from mem(1) obtain a rest where us: "us = a # rest" by (cases us) auto
    obtain uid0 first where a: "a = (uid0, first)" by (cases a)
    from res(1) rd d us a
    have l: "most_recent_loop f None ((uid0, first) # rest) = Inr (Some (ru, Aware t))" by simp
    have ex: "extract_last_session f ios (JObj [(''users'', JObj us)])
             = Inr \<lparr>last_action = Some (Aware t), estimated_dev_minutes = n\<rparr>"
      unfolding us a extract_last_session_users l by (simp add: n)
    from mem latest n ex score_usage_aware[of now t n]
    show "\<exists>u \<in> snd ` set us. \<exists>t n.
           parse_last_action f u = Inr (Some (Aware t))
         \<and> (\<forall>u' \<in> snd ` set us. \<forall>t'. parse_last_action f u' = Inr (Some (Aware t')) \<longrightarrow> t' \<le> t)
         \<and> est_minutes ios u = Inr n
         \<and> extract_last_session f ios (JObj [(''users'', JObj us)])
             = Inr \<lparr>last_action = Some (Aware t), estimated_dev_minutes = n\<rparr>
         \<and> score_usage now \<lparr>last_action = Some (Aware t), estimated_dev_minutes = n\<rparr>
             = Inr (usage_points_spec (hours_between t now) n)"
      by blast
  qed
  from A B show ?thesis by blast
qed

text \<open>Three users, the second the most recent, twelve hours before \<open>now\<close>: 10 + 2 points.\<close>

lemma usage_score_example:
  "extract_last_session
     (\<lambda>s. if s = ''2025-01-01T00:00:00+00:00'' then Some (Aware 1735689600000000)
          else if s = ''2025-01-02T00:00:00+00:00'' then Some (Aware 1735776000000000)
          else None)
     (\<lambda>s. None)
     (JObj [(''users'', JObj
        [(''1'', JObj [(''last_action'', JStr ''2025-01-01T00:00:00+00:00''),
                       (''estimated_dev_minutes'', JInt 0)]),
         (''2'', JObj [(''last_action'', JStr ''2025-01-02T00:00:00+00:00''),
                       (''estimated_dev_minutes'', JInt 90)]),
         (''3'', JObj [(''last_action'', JStr ''yesterday''),
                       (''estimated_dev_minutes'', JInt 500)])])])
   = Inr \<lparr>last_action = Some (Aware 1735776000000000), estimated_dev_minutes = 90\<rparr>
   \<and> score_usage 1735819200000000
        \<lparr>last_action = Some (Aware 1735776000000000), estimated_dev_minutes = 90\<rparr> = Inr 12"
  by code_simp

section \<open>Properties of the explain-preference module\<close>












section \<open>Properties of the feature extractor\<close>

subsection \<open>The clock is the only other input\<close>

lemma extract_raw_stats_clock:
  "extract_raw_stats now1 m = (extract_raw_stats now2 m)\<lparr>timestamp := now1 @ ''Z''\<rparr>"
  by (simp add: extract_raw_stats_def Let_def)

lemma estimate_importance_timestamp:
  "estimate_importance m i e (rw\<lparr>timestamp := t\<rparr>) = estimate_importance m i e rw"
proof -
  have sel: "contains_money (rw\<lparr>timestamp := t\<rparr>) = contains_money rw"
    "contains_time (rw\<lparr>timestamp := t\<rparr>) = contains_time rw"
    "word_count (rw\<lparr>timestamp := t\<rparr>) = word_count rw"
    by simp_all
  show ?thesis unfolding estimate_importance_def sel by (rule refl)
qed

lemma estimate_risk_timestamp:
  "estimate_risk m i e (rw\<lparr>timestamp := t\<rparr>) = estimate_risk m i e rw"
proof -
  have sel: "contains_money (rw\<lparr>timestamp := t\<rparr>) = contains_money rw"
    "contains_crypto (rw\<lparr>timestamp := t\<rparr>) = contains_crypto rw"
    by simp_all
  show ?thesis unfolding estimate_risk_def sel by (rule refl)
qed

lemma extract_raw_stats_timestamp: "timestamp (extract_raw_stats now m) = now @ ''Z''"
  by (simp add: extract_raw_stats_def Let_def)

lemma score_message_Some_timestamp:
  "timestamp (raw (projr (score_message now (Some m) h))) = now @ ''Z''"
  by (simp add: score_message_def Let_def extract_raw_stats_timestamp)

text \<open>
  Two calls with the same message and history, a second apart on the clock, return
  different feature vectors: \<open>raw.timestamp\<close> differs.
\<close>

theorem score_message_differs_with_clock:
  "score_message ''2025-01-01T00:00:00'' (Some ''hoi'') None
     \<noteq> score_message ''2025-01-01T00:00:01'' (Some ''hoi'') None"
proof
  assume "score_message ''2025-01-01T00:00:00'' (Some ''hoi'') None
            = score_message ''2025-01-01T00:00:01'' (Some ''hoi'') None"
  hence "timestamp (raw (projr (score_message ''2025-01-01T00:00:00'' (Some ''hoi'') None)))
       = timestamp (raw (projr (score_message ''2025-01-01T00:00:01'' (Some ''hoi'') None)))"
    by simp
  thus False by (simp only: score_message_Some_timestamp) simp
qed

text \<open>
  C4, as the code has it.  Two calls with the same message and history, at any two
  readings of the clock, either both raise the same error or both return, and then the
  versions and the emotion, intent and behavior sub-objects are identical and the raw
  sub-objects are identical in every field but \<open>timestamp\<close>, which is the reading of the
  clock at the call followed by \<open>Z\<close>.
\<close>

theorem score_message_deterministic_up_to_timestamp:
  "(case (score_message now1 m h, score_message now2 m h) of
      (Inr a, Inr b) \<Rightarrow>
         version a = version b \<and> emotion a = emotion b \<and> intent a = intent b
       \<and> behavior a = behavior b
       \<and> (raw a)\<lparr>timestamp := []\<rparr> = (raw b)\<lparr>timestamp := []\<rparr>
       \<and> timestamp (raw a) = now1 @ ''Z'' \<and> timestamp (raw b) = now2 @ ''Z''
    | (Inl e1, Inl e2) \<Rightarrow> e1 = e2
    | _ \<Rightarrow> False)"
proof (cases m)
  case None
  then show ?thesis by (simp add: score_message_def)
next
  case (Some msg)
  have "extract_raw_stats now1 m = (extract_raw_stats now2 m)\<lparr>timestamp := now1 @ ''Z''\<rparr>"
    by (rule extract_raw_stats_clock)
  with Some show ?thesis
    by (simp add: score_message_def Let_def estimate_importance_timestamp
        estimate_risk_timestamp extract_raw_stats_timestamp)
qed

theorem score_message_deterministic_up_to_timestamp_witness:
  "version (projr (score_message ''2025-01-01T00:00:00'' (Some ''hoi'') None)) = 1
   \<and> timestamp (raw (projr (score_message ''2025-01-01T00:00:00'' (Some ''hoi'') None)))
       = ''2025-01-01T00:00:00Z''
   \<and> emotion (projr (score_message ''2025-01-01T00:00:00'' (Some ''hoi'') None))
       = emotion (projr (score_message ''2025-01-01T00:00:01'' (Some ''hoi'') None))"
  using score_message_deterministic_up_to_timestamp
    [where ?now1.0 = "''2025-01-01T00:00:00''" and m = "Some ''hoi''" and h = None
       and ?now2.0 = "''2025-01-01T00:00:01''"]
  by (simp add: score_message_def extract_raw_stats_def Let_def SCORE_VERSION_def)

subsection \<open>The empty message\<close>

lemma strip_Nil: "strip [] = []" by (simp add: strip_def)
lemma lower_Nil: "lower [] = []" by (simp add: lower_def)
lemma to_words_Nil: "to_words [] = []" by (simp add: to_words_def lower_def)

lemma detect_emotion_empty:
  "detect_emotion [] = \<lparr>e_label = ''neutraal'', e_confidence = 0, energy = 0, stress = 0\<rparr>"
  by code_simp

lemma detect_intent_empty:
  "detect_intent [] = \<lparr>i_label = ''smalltalk'', i_confidence = 0, i_tags = []\<rparr>"
  by code_simp

lemma extract_raw_stats_empty:
  "extract_raw_stats now_iso (Some []) =
     \<lparr>raw_length = 0, word_count = 0, exclamations = 0, question_marks = 0,
      uppercase_ratio = 0, contains_crypto = False, contains_money = False,
      contains_time = False, timestamp = now_iso @ ''Z''\<rparr>"
  by code_simp

lemma detect_habit_strength_empty:
  "detect_habit_strength [] history = (if history = [] then 1 / 10 else 0)"
  by (simp add: detect_habit_strength_def strip_Nil lower_Nil)

lemma estimate_novelty_empty:
  "estimate_novelty [] history = (if history = [] then 1 else 0)"
  by (simp add: estimate_novelty_def strip_Nil lower_Nil)

lemma estimate_importance_empty:
  "estimate_importance []
     \<lparr>i_label = ''smalltalk'', i_confidence = 0, i_tags = []\<rparr>
     \<lparr>e_label = ''neutraal'', e_confidence = 0, energy = 0, stress = 0\<rparr>
     \<lparr>raw_length = 0, word_count = 0, exclamations = 0, question_marks = 0,
      uppercase_ratio = 0, contains_crypto = False, contains_money = False,
      contains_time = False, timestamp = ts\<rparr> = 1 / 5"
  by code_simp

lemma estimate_risk_empty:
  "estimate_risk []
     \<lparr>i_label = ''smalltalk'', i_confidence = 0, i_tags = []\<rparr>
     \<lparr>e_label = ''neutraal'', e_confidence = 0, energy = 0, stress = 0\<rparr>
     \<lparr>raw_length = 0, word_count = 0, exclamations = 0, question_marks = 0,
      uppercase_ratio = 0, contains_crypto = False, contains_money = False,
      contains_time = False, timestamp = ts\<rparr> = 0"
  by code_simp

lemma score_message_unfold:
  "score_message now_iso (Some m) history_opt =
     Inr \<lparr>version = SCORE_VERSION, emotion = detect_emotion m, intent = detect_intent m,
          behavior =
            \<lparr>importance = estimate_importance m (detect_intent m) (detect_emotion m)
                            (extract_raw_stats now_iso (Some m)),
             novelty = estimate_novelty m (case history_opt of None \<Rightarrow> [] | Some h \<Rightarrow> h),
             habit_strength =
               detect_habit_strength m (case history_opt of None \<Rightarrow> [] | Some h \<Rightarrow> h),
             risk = estimate_risk m (detect_intent m) (detect_emotion m)
                      (extract_raw_stats now_iso (Some m))\<rparr>,
          raw = extract_raw_stats now_iso (Some m)\<rparr>"
  unfolding score_message_def Let_def by simp

lemma score_message_missing_message_raises:
  "score_message now_iso None history_opt = Inl AttributeError"
  unfolding score_message_def Let_def by simp

text \<open>
  On the empty message with no history the emotion label is \<open>neutraal\<close>, not \<open>onbekend\<close>,
  and importance, novelty and habit strength are 0.2, 1.0 and 0.1, not 0.
\<close>

theorem score_message_empty_not_all_zero:
  "e_label (emotion (projr (score_message ''2025-01-01T00:00:00'' (Some []) None))) = ''neutraal''
   \<and> e_label (emotion (projr (score_message ''2025-01-01T00:00:00'' (Some []) None))) \<noteq> ''onbekend''
   \<and> importance (behavior (projr (score_message ''2025-01-01T00:00:00'' (Some []) None))) = 1 / 5
   \<and> novelty (behavior (projr (score_message ''2025-01-01T00:00:00'' (Some []) None))) = 1
   \<and> habit_strength (behavior (projr (score_message ''2025-01-01T00:00:00'' (Some []) None))) = 1 / 10"
  unfolding score_message_unfold
  by (simp add: detect_emotion_empty detect_intent_empty extract_raw_stats_empty
      estimate_importance_empty detect_habit_strength_empty estimate_novelty_empty)

text \<open>
  C7, as the code has it.  For the empty message and any history, \<open>score_message\<close> returns;
  the emotion label is \<open>neutraal\<close> and the intent label \<open>smalltalk\<close>; emotion confidence,
  energy and stress, intent confidence and risk are 0; importance is 0.2; novelty is 1.0
  and habit strength 0.1 when the history is missing or empty, and both are 0 otherwise.
\<close>

theorem score_message_empty_message:
  "score_message now_iso (Some []) history_opt =
     Inr \<lparr>version = 1,
          emotion = \<lparr>e_label = ''neutraal'', e_confidence = 0, energy = 0, stress = 0\<rparr>,
          intent = \<lparr>i_label = ''smalltalk'', i_confidence = 0, i_tags = []\<rparr>,
          behavior =
            \<lparr>importance = 1 / 5,
             novelty = (if history_opt = None \<or> history_opt = Some [] then 1 else 0),
             habit_strength = (if history_opt = None \<or> history_opt = Some [] then 1 / 10 else 0),
             risk = 0\<rparr>,
          raw = \<lparr>raw_length = 0, word_count = 0, exclamations = 0, question_marks = 0,
                 uppercase_ratio = 0, contains_crypto = False, contains_money = False,
                 contains_time = False, timestamp = now_iso @ ''Z''\<rparr>\<rparr>"
  unfolding score_message_unfold
  by (cases history_opt)
     (simp_all add: detect_emotion_empty detect_intent_empty extract_raw_stats_empty
        estimate_importance_empty estimate_risk_empty detect_habit_strength_empty
        estimate_novelty_empty SCORE_VERSION_def)

theorem score_message_empty_message_witness:
  "score_message ''2025-01-01T00:00:00'' (Some []) (Some [''joo maat'']) =
     Inr \<lparr>version = 1,
          emotion = \<lparr>e_label = ''neutraal'', e_confidence = 0, energy = 0, stress = 0\<rparr>,
          intent = \<lparr>i_label = ''smalltalk'', i_confidence = 0, i_tags = []\<rparr>,
          behavior = \<lparr>importance = 1 / 5, novelty = 0, habit_strength = 0, risk = 0\<rparr>,
          raw = \<lparr>raw_length = 0, word_count = 0, exclamations = 0, question_marks = 0,
                 uppercase_ratio = 0, contains_crypto = False, contains_money = False,
                 contains_time = False, timestamp = ''2025-01-01T00:00:00Z''\<rparr>\<rparr>"
  using score_message_empty_message[of "''2025-01-01T00:00:00''" "Some [''joo maat'']"]
  by simp

subsection \<open>The message of the crypto scenario\<close>




lemma crypto_keywords_miss_crypto_update:
  "kw_hits (lower ''joo maat heb je een crypto update?'')
     (case map_of INTENT_KEYWORDS ''crypto'' of None \<Rightarrow> [] | Some kws \<Rightarrow> kws) = []"
  by code_simp






end

